theory Spec2Isabelle
  imports
    Main
    "HOL-Library.Char_ord"
    "HOL-Library.List_Lexorder"
    "HOL-Library.Multiset"
    "HOL-Library.Monad_Syntax"
begin

section \<open>Strings\<close>

text \<open>
  Python strings are modelled as \<^typ>\<open>string\<close>, one \<^typ>\<open>char\<close> per code point
  (so the model covers code points below 256). With \<open>Char_ord\<close> and \<open>List_Lexorder\<close>
  the order on \<^typ>\<open>string\<close> is the lexicographic order by code point, which is the
  order Python's \<open>sorted\<close> uses on \<open>str\<close>.
\<close>

text \<open>\<open>sep.join(xs)\<close>.\<close>

fun join :: "string \<Rightarrow> string list \<Rightarrow> string" where
  "join sep [] = []"
| "join sep [x] = x"
| "join sep (x # y # ys) = x @ sep @ join sep (y # ys)"

text \<open>
  \<open>str.isspace\<close> on one character, which is also what \<open>\s\<close> matches in a \<open>str\<close>
  pattern: the code points 9 to 13, 28 to 32, 133 and 160.
\<close>

definition isspace :: "char \<Rightarrow> bool" where
  "isspace c =
     (let n = (of_char c :: nat)
      in (9 \<le> n \<and> n \<le> 13) \<or> (28 \<le> n \<and> n \<le> 32) \<or> n = 133 \<or> n = 160)"

text \<open>\<open>s.strip()\<close>.\<close>

definition strip :: "string \<Rightarrow> string" where
  "strip s = rev (dropWhile isspace (rev (dropWhile isspace s)))"

section \<open>The index cache key (\<open>qa_engine.py\<close>, line 34)\<close>

text \<open>
  \<open>store_name = "_".join(sorted(doc_ids))\<close>. The list is sorted as it is: nothing
  removes duplicates.
\<close>

definition store_name :: "string list \<Rightarrow> string" where
  "store_name doc_ids = join ''_'' (sort doc_ids)"

text \<open>An identifier that is not empty and has no underscore, as a UUID is.\<close>

definition plain_id :: "string \<Rightarrow> bool" where
  "plain_id x = (x \<noteq> [] \<and> CHR ''_'' \<notin> set x)"

section \<open>JSON values and Python dictionaries\<close>

text \<open>
  What \<open>json.loads\<close> returns: \<open>None\<close>, a \<open>bool\<close>, a number, a \<open>str\<close>, a \<open>list\<close>
  or a \<open>dict\<close> with string keys. A dictionary is an association list in insertion
  order, read with \<^const>\<open>map_of\<close>. The code below never looks inside a number, so
  one constructor stands for \<open>int\<close> and \<open>float\<close> alike.
\<close>

datatype json =
    JNull
  | JBool bool
  | JNum int
  | JStr string
  | JArr "json list"
  | JObj "(string \<times> json) list"

type_synonym pydict = "(string \<times> json) list"

text \<open>\<open>d[k] = v\<close>: an existing key keeps its place, a new one goes last.\<close>

fun dict_set :: "string \<Rightarrow> json \<Rightarrow> pydict \<Rightarrow> pydict" where
  "dict_set k v [] = [(k, v)]"
| "dict_set k v ((k', v') # kvs) =
     (if k = k' then (k, v) # kvs else (k', v') # dict_set k v kvs)"

text \<open>\<open>if k not in d: d[k] = v\<close>.\<close>

definition backfill :: "string \<Rightarrow> json \<Rightarrow> pydict \<Rightarrow> pydict" where
  "backfill k v d = (if map_of d k = None then dict_set k v d else d)"

text \<open>
  \<open>for x in v\<close>: a list gives its elements, a dictionary its keys, a string its
  characters; \<open>None\<close>, a \<open>bool\<close> and a number are not iterable (\<open>TypeError\<close>, here
  \<^const>\<open>None\<close>).
\<close>

fun py_iter :: "json \<Rightarrow> json list option" where
  "py_iter (JArr xs) = Some xs"
| "py_iter (JObj kvs) = Some (map (\<lambda>kv. JStr (fst kv)) kvs)"
| "py_iter (JStr s) = Some (map (\<lambda>c. JStr [c]) s)"
| "py_iter JNull = None"
| "py_iter (JBool b) = None"
| "py_iter (JNum n) = None"

section \<open>Errors\<close>

text \<open>
  The exceptions of the analysis path. \<open>ValueError\<close> carries its message; it is the one
  \<open>_summarize_document_sync\<close> raises itself when there is no text (the spec's
  NotFoundError). A failure of an external capability (embedding, completion, FAISS) is
  a value \<^term>\<open>Inl msg\<close> where \<open>msg\<close> is \<open>str(e)\<close> of the exception raised.
\<close>

datatype error =
    ValueError string
  | ValidationError
  | JSONDecodeError
  | TypeError
  | KeyError

section \<open>The report models (\<open>models.py\<close>)\<close>

record RiskItem =
  title :: string
  why_it_matters :: string
  where_found :: "string option"
  mitigations :: "string list"

record DecisionAssist =
  pros :: "string list"
  cons :: "string list"
  overall_take :: string

record AnalysisReport =
  summary :: "string list"
  key_terms :: "string list"
  obligations :: "(string \<times> string list) list"
  costs_and_payments :: "string list"
  risks :: "RiskItem list"
  red_flags :: "string list"
  questions_to_ask :: "string list"
  negotiation_suggestions :: "string list"
  decision_assist :: DecisionAssist

text \<open>
  The classes are pydantic models (version 2: \<open>main.py\<close> calls \<open>model_dump\<close>), so
  calling one validates its keyword arguments field by field and raises
  \<open>ValidationError\<close> when any field fails. The validators below are the ones the
  annotations select, on values that come from \<open>json.loads\<close>; \<^const>\<open>None\<close> is a
  failed field.
  \<^item> \<open>str\<close> takes a string and nothing else;
  \<^item> \<open>Optional[str]\<close> takes \<open>None\<close> or a string;
  \<^item> \<open>List[str]\<close> takes a list whose elements are all strings;
  \<^item> \<open>Dict[str, List[str]]\<close> takes a dictionary whose values are all such lists;
  \<^item> a model class takes a dictionary and validates it as its keyword arguments
    (keys that are no field are ignored).
\<close>

fun str_field :: "json \<Rightarrow> string option" where
  "str_field (JStr s) = Some s"
| "str_field _ = None"

fun optional_str_field :: "json \<Rightarrow> string option option" where
  "optional_str_field JNull = Some None"
| "optional_str_field (JStr s) = Some (Some s)"
| "optional_str_field _ = None"

fun list_str_field :: "json \<Rightarrow> string list option" where
  "list_str_field (JArr xs) = those (map str_field xs)"
| "list_str_field _ = None"

fun dict_list_str_field :: "json \<Rightarrow> (string \<times> string list) list option" where
  "dict_list_str_field (JObj kvs) =
     those (map (\<lambda>kv. map_option (Pair (fst kv)) (list_str_field (snd kv))) kvs)"
| "dict_list_str_field _ = None"

text \<open>
  A field with no default is required: a missing argument fails. A field with a
  default (or a \<open>default_factory\<close>) takes the default when the argument is missing; the
  default is itself a computation, because a factory can raise.
\<close>

definition required :: "(json \<Rightarrow> 'a option) \<Rightarrow> json option \<Rightarrow> 'a option" where
  "required validate arg = (case arg of None \<Rightarrow> None | Some v \<Rightarrow> validate v)"

definition defaulted :: "'a option \<Rightarrow> (json \<Rightarrow> 'a option) \<Rightarrow> json option \<Rightarrow> 'a option" where
  "defaulted dflt validate arg = (case arg of None \<Rightarrow> dflt | Some v \<Rightarrow> validate v)"

text \<open>
  \<open>RiskItem\<close>: \<open>title\<close> and \<open>why_it_matters\<close> are required, \<open>where_found\<close> defaults to
  \<open>None\<close>, \<open>mitigations\<close> to the empty list.
\<close>

definition RiskItem_fields :: "pydict \<Rightarrow> RiskItem option" where
  "RiskItem_fields kw = do {
     t \<leftarrow> required str_field (map_of kw ''title'');
     w \<leftarrow> required str_field (map_of kw ''why_it_matters'');
     f \<leftarrow> defaulted (Some None) optional_str_field (map_of kw ''where_found'');
     m \<leftarrow> defaulted (Some []) list_str_field (map_of kw ''mitigations'');
     Some \<lparr>title = t, why_it_matters = w, where_found = f, mitigations = m\<rparr>
   }"

text \<open>
  \<open>DecisionAssist\<close>: \<open>pros\<close> and \<open>cons\<close> default to the empty list; \<open>overall_take: str\<close>
  has no default, so it is required.
\<close>

definition DecisionAssist_fields :: "pydict \<Rightarrow> DecisionAssist option" where
  "DecisionAssist_fields kw = do {
     p \<leftarrow> defaulted (Some []) list_str_field (map_of kw ''pros'');
     c \<leftarrow> defaulted (Some []) list_str_field (map_of kw ''cons'');
     t \<leftarrow> required str_field (map_of kw ''overall_take'');
     Some \<lparr>pros = p, cons = c, overall_take = t\<rparr>
   }"

fun RiskItem_field :: "json \<Rightarrow> RiskItem option" where
  "RiskItem_field (JObj kw) = RiskItem_fields kw"
| "RiskItem_field _ = None"

fun list_RiskItem_field :: "json \<Rightarrow> RiskItem list option" where
  "list_RiskItem_field (JArr xs) = those (map RiskItem_field xs)"
| "list_RiskItem_field _ = None"

fun DecisionAssist_field :: "json \<Rightarrow> DecisionAssist option" where
  "DecisionAssist_field (JObj kw) = DecisionAssist_fields kw"
| "DecisionAssist_field _ = None"

text \<open>
  \<open>AnalysisReport\<close>: every field has a \<open>default_factory\<close>: \<open>list\<close>, \<open>dict\<close>, and for
  \<open>decision_assist\<close> the class \<open>DecisionAssist\<close>, called with no argument when the
  argument is missing.
\<close>

definition AnalysisReport_fields :: "pydict \<Rightarrow> AnalysisReport option" where
  "AnalysisReport_fields kw = do {
     s \<leftarrow> defaulted (Some []) list_str_field (map_of kw ''summary'');
     k \<leftarrow> defaulted (Some []) list_str_field (map_of kw ''key_terms'');
     ob \<leftarrow> defaulted (Some []) dict_list_str_field (map_of kw ''obligations'');
     c \<leftarrow> defaulted (Some []) list_str_field (map_of kw ''costs_and_payments'');
     r \<leftarrow> defaulted (Some []) list_RiskItem_field (map_of kw ''risks'');
     f \<leftarrow> defaulted (Some []) list_str_field (map_of kw ''red_flags'');
     q \<leftarrow> defaulted (Some []) list_str_field (map_of kw ''questions_to_ask'');
     n \<leftarrow> defaulted (Some []) list_str_field (map_of kw ''negotiation_suggestions'');
     d \<leftarrow> defaulted (DecisionAssist_fields []) DecisionAssist_field
            (map_of kw ''decision_assist'');
     Some \<lparr>summary = s, key_terms = k, obligations = ob, costs_and_payments = c,
           risks = r, red_flags = f, questions_to_ask = q,
           negotiation_suggestions = n, decision_assist = d\<rparr>
   }"

text \<open>\<open>AnalysisReport(**kw)\<close>: the report, or \<open>ValidationError\<close>.\<close>

definition AnalysisReport_init :: "pydict \<Rightarrow> error + AnalysisReport" where
  "AnalysisReport_init kw =
     (case AnalysisReport_fields kw of
        None \<Rightarrow> Inl ValidationError
      | Some r \<Rightarrow> Inr r)"

text \<open>The report the spec calls all-defaults: every list empty, an empty overall take.\<close>

definition empty_report :: AnalysisReport where
  "empty_report =
     \<lparr>summary = [], key_terms = [], obligations = [], costs_and_payments = [],
      risks = [], red_flags = [], questions_to_ask = [],
      negotiation_suggestions = [],
      decision_assist = \<lparr>pros = [], cons = [], overall_take = ''''\<rparr>\<rparr>"

section \<open>The world outside: files, capabilities, calls\<close>

text \<open>
  A file of the text cache either reads as text or makes \<open>open\<close>/\<open>read\<close> raise (for
  example bytes that are not UTF-8).
\<close>

datatype cached_file = Unreadable | Readable string

text \<open>
  \<open>ChatVertexAI(..., temperature=t, max_output_tokens=n)\<close>: the temperature is kept in
  tenths (0.3 is 3).
\<close>

record llm_config =
  temperature_tenths :: nat
  max_output_tokens :: nat

text \<open>One entry per call of an external capability, in the order of the calls.\<close>

datatype event =
    LoadLocal string
  | FromTexts "string list"
  | SaveLocal string
  | SimilaritySearch string nat
  | Invoke llm_config string

text \<open>
  The mutable state: the files of \<open>TEXT_CACHE_DIR\<close> and of \<open>VECTOR_STORE_DIR\<close> by file
  name, and the calls made so far.
\<close>

record 'blob world =
  text_cache :: "string \<rightharpoonup> cached_file"
  vector_store_dir :: "string \<rightharpoonup> 'blob"
  calls :: "event list"

definition called :: "event \<Rightarrow> 'blob world \<Rightarrow> 'blob world" where
  "called e w = w\<lparr>calls := calls w @ [e]\<rparr>"

text \<open>
  The libraries the code calls, as parameters: nothing is assumed about them. A call
  that raises is \<^term>\<open>Inl msg\<close>, with \<open>msg\<close> the text of the exception.
  \<^item> \<open>embeddings\<close>: the module-level handle of \<open>qa_engine.py\<close> (lines 20 to 25),
    \<^const>\<open>None\<close> when \<open>HuggingFaceEmbeddings\<close> could not be loaded;
  \<^item> \<open>split_text\<close>: \<open>RecursiveCharacterTextSplitter(chunk_size=1000,
    chunk_overlap=200, length_function=len).split_text\<close>;
  \<^item> \<open>FAISS_from_texts\<close>, \<open>FAISS_load_local\<close> (given the contents of the \<open>.faiss\<close> and
    the \<open>.pkl\<close> file), \<open>FAISS_save_local\<close> (a change of the directory that may raise)
    and \<open>similarity_search\<close> (the \<open>page_content\<close> of the documents found);
  \<^item> \<open>llm_invoke\<close>: building the \<open>ChatVertexAI\<close> client and calling \<open>invoke\<close> on the
    prompt, giving the text of the response;
  \<^item> \<open>json_loads\<close>: \<open>json.loads\<close>, \<^const>\<open>None\<close> for \<open>JSONDecodeError\<close>;
  \<^item> \<open>exists_error\<close>: the operating system under \<open>Path.exists\<close>, for a file name of
    \<open>VECTOR_STORE_DIR\<close>. \<open>Path.exists\<close> answers \<open>False\<close> for a file that is not there,
    but an \<open>OSError\<close> of another kind is raised again: a file name longer than the file
    system allows gives \<open>[Errno 36] File name too long\<close>. \<^term>\<open>Some msg\<close> is such an
    error with its text.
\<close>

record ('emb, 'ix, 'blob) services =
  embeddings :: "'emb option"
  split_text :: "string \<Rightarrow> string list"
  FAISS_from_texts :: "string list \<Rightarrow> 'emb \<Rightarrow> string + 'ix"
  FAISS_load_local :: "'emb \<Rightarrow> 'blob \<Rightarrow> 'blob \<Rightarrow> string + 'ix"
  FAISS_save_local ::
    "'ix \<Rightarrow> string \<Rightarrow> (string \<rightharpoonup> 'blob) \<Rightarrow> (string + unit) \<times> (string \<rightharpoonup> 'blob)"
  similarity_search :: "'ix \<Rightarrow> string \<Rightarrow> nat \<Rightarrow> string + string list"
  llm_invoke :: "llm_config \<Rightarrow> string \<Rightarrow> string + string"
  json_loads :: "string \<Rightarrow> json option"
  exists_error :: "string \<Rightarrow> string option"

section \<open>The text cache (\<open>extractor.py\<close>)\<close>

text \<open>
  \<open>load_extracted_text\<close>: \<open>None\<close> when the file \<open>extract_<doc_id>.txt\<close> does not exist,
  and \<open>None\<close> again when reading it raises (the \<open>except Exception\<close> of line 47).
\<close>

definition load_extracted_text :: "'blob world \<Rightarrow> string \<Rightarrow> string option" where
  "load_extracted_text w doc_id =
     (case text_cache w (''extract_'' @ doc_id @ ''.txt'') of
        None \<Rightarrow> None
      | Some Unreadable \<Rightarrow> None
      | Some (Readable t) \<Rightarrow> Some t)"

section \<open>The analysis path (\<open>summarizer.py\<close>)\<close>

text \<open>
  \<open>re.sub(pat + r'\s*', '', s)\<close> for a literal \<open>pat\<close>: every occurrence of \<open>pat\<close>, found
  from left to right, is removed with the white space after it, and the search goes
  on behind what was removed.
\<close>

function re_sub_fence :: "string \<Rightarrow> string \<Rightarrow> string" where
  "re_sub_fence pat s =
     (case s of
        [] \<Rightarrow> []
      | c # cs \<Rightarrow>
          if pat \<noteq> [] \<and> take (length pat) s = pat
          then re_sub_fence pat (dropWhile isspace (drop (length pat) s))
          else c # re_sub_fence pat cs)"
  by pat_completeness auto
termination
proof (relation "measure (\<lambda>(pat, s). length s)")
  show "wf (measure (\<lambda>(pat, s). length s))" by simp
next
  fix pat s :: string and c cs
  assume s: "s = c # cs" and p: "pat \<noteq> [] \<and> take (length pat) s = pat"
  have "length (dropWhile isspace (drop (length pat) s)) \<le> length (drop (length pat) s)"
    by (rule length_dropWhile_le)
  also have "\<dots> < length s" using s p by (cases pat) auto
  finally show "((pat, dropWhile isspace (drop (length pat) s)), (pat, s))
             \<in> measure (\<lambda>(pat, s). length s)" by simp
next
  fix pat s :: string and c cs
  assume "s = c # cs"
  then show "((pat, cs), (pat, s)) \<in> measure (\<lambda>(pat, s). length s)" by simp
qed

text \<open>
  \<open>re.search(r'\{.*\}', s, re.DOTALL)\<close>: the match starts at the first \<open>{\<close> and, the
  star being greedy and the dot matching every character, ends at the last \<open>}\<close> behind
  it; there is no match when no \<open>}\<close> follows the first \<open>{\<close>.
\<close>

definition re_search_object :: "string \<Rightarrow> string option" where
  "re_search_object s =
     (let r = dropWhile (\<lambda>c. c \<noteq> CHR ''{'') s
      in if r \<noteq> [] \<and> CHR ''}'' \<in> set (tl r)
         then Some (rev (dropWhile (\<lambda>c. c \<noteq> CHR ''}'') (rev r)))
         else None)"

definition clean_json_response :: "string \<Rightarrow> string" where
  "clean_json_response response_text =
     (let t1 = re_sub_fence ''```json'' response_text;
          t2 = re_sub_fence ''```'' t1;
          t3 = strip t2
      in case re_search_object t3 of Some m \<Rightarrow> m | None \<Rightarrow> t3)"

text \<open>\<open>get_summarization_prompt\<close>: the text is cut to its first 10000 characters.\<close>

definition get_summarization_prompt :: "string \<Rightarrow> string" where
  \<open>get_summarization_prompt text_in =
     ''You are a legal clarity assistant specializing in analyzing legal documents and contracts. \<newline>'' @
     ''Analyze the following document and provide a comprehensive structured analysis.\<newline>'' @
     ''\<newline>'' @
     ''Document Text:\<newline>'' @
     take 10000 text_in @
     ''  # Limit to first 10k chars to avoid token limits\<newline>'' @
     ''\<newline>'' @
     ''Please analyze this document and return a JSON object with the following structure:\<newline>'' @
     ''{\<newline>'' @
     ''    "summary": ["point 1", "point 2", ...],  // A list of summary points (strings)\<newline>'' @
     ''    "key_terms": ["term1", "term2", ...],  // Important legal terms found in the document\<newline>'' @
     ''    "obligations": {  // Key obligations organized by party or topic\<newline>'' @
     ''        "Party A": ["obligation 1", "obligation 2"],\<newline>'' @
     ''        "Party B": ["obligation 1", "obligation 2"]\<newline>'' @
     ''    },\<newline>'' @
     ''    "costs_and_payments": ["cost/payment point 1", ...],  // Financial obligations and costs\<newline>'' @
     ''    "risks": [  // Risk assessment\<newline>'' @
     ''        {\<newline>'' @
     ''            "title": "Risk title",\<newline>'' @
     ''            "why_it_matters": "Explanation of why this risk matters",\<newline>'' @
     ''            "where_found": "Section or clause reference (optional)",\<newline>'' @
     ''            "mitigations": ["mitigation 1", "mitigation 2"]\<newline>'' @
     ''        }\<newline>'' @
     ''    ],\<newline>'' @
     ''    "red_flags": ["flag 1", "flag 2", ...],  // Critical issues or warning signs\<newline>'' @
     ''    "questions_to_ask": ["question 1", "question 2", ...],  // Questions to clarify with the other party\<newline>'' @
     ''    "negotiation_suggestions": ["suggestion 1", ...],  // Recommendations for negotiation\<newline>'' @
     ''    "decision_assist": {\<newline>'' @
     ''        "pros": ["pro 1", "pro 2", ...],\<newline>'' @
     ''        "cons": ["con 1", "con 2", ...],\<newline>'' @
     ''        "overall_take": "Overall assessment and recommendation"\<newline>'' @
     ''    }\<newline>'' @
     ''}\<newline>'' @
     ''\<newline>'' @
     ''IMPORTANT: Return ONLY valid JSON. Do not include any markdown formatting, code blocks, or additional text.\<newline>'' @
     ''The JSON must be valid and parseable.''\<close>

text \<open>
  The loop over \<open>data.get("risks", [])\<close> (lines 92 to 101): an element that is a
  dictionary gets the keys \<open>title\<close>, \<open>why_it_matters\<close> and \<open>mitigations\<close> it lacks and is
  kept; any other element is left out.
\<close>

definition coerce_risk :: "pydict \<Rightarrow> pydict" where
  "coerce_risk risk =
     backfill ''mitigations'' (JArr [])
       (backfill ''why_it_matters'' (JStr '''')
         (backfill ''title'' (JStr ''Untitled Risk'') risk))"

fun validated_risks :: "json list \<Rightarrow> json list" where
  "validated_risks [] = []"
| "validated_risks (JObj risk # rs) = JObj (coerce_risk risk) # validated_risks rs"
| "validated_risks (_ # rs) = validated_risks rs"

text \<open>Lines 104 to 110: only a dictionary is touched.\<close>

fun coerce_decision_assist :: "json \<Rightarrow> json" where
  "coerce_decision_assist (JObj d) =
     JObj (backfill ''overall_take'' (JStr '''')
            (backfill ''cons'' (JArr [])
              (backfill ''pros'' (JArr []) d)))"
| "coerce_decision_assist v = v"

text \<open>Lines 71 to 88: the nine top-level keys, in the order of the source.\<close>

definition backfill_top :: "pydict \<Rightarrow> pydict" where
  "backfill_top data =
     backfill ''decision_assist''
         (JObj [(''pros'', JArr []), (''cons'', JArr []), (''overall_take'', JStr '''')])
       (backfill ''negotiation_suggestions'' (JArr [])
         (backfill ''questions_to_ask'' (JArr [])
           (backfill ''red_flags'' (JArr [])
             (backfill ''risks'' (JArr [])
               (backfill ''costs_and_payments'' (JArr [])
                 (backfill ''obligations'' (JObj [])
                   (backfill ''key_terms'' (JArr [])
                     (backfill ''summary'' (JArr []) data))))))))"

text \<open>
  The body of the \<open>try\<close> of \<open>validate_and_coerce_analysis\<close> up to the call of
  \<open>AnalysisReport(**data)\<close>: the dictionary that call receives. Iterating over a
  \<open>risks\<close> that is \<open>None\<close>, a \<open>bool\<close> or a number raises \<open>TypeError\<close>;
  \<open>data["decision_assist"]\<close> would raise \<open>KeyError\<close> on a missing key.
\<close>

definition coerce_analysis :: "pydict \<Rightarrow> error + pydict" where
  "coerce_analysis data =
     (let d1 = backfill_top data in
      case py_iter (case map_of d1 ''risks'' of None \<Rightarrow> JArr [] | Some v \<Rightarrow> v) of
        None \<Rightarrow> Inl TypeError
      | Some rs \<Rightarrow>
          let d2 = dict_set ''risks'' (JArr (validated_risks rs)) d1 in
          case map_of d2 ''decision_assist'' of
            None \<Rightarrow> Inl KeyError
          | Some v \<Rightarrow> Inr (dict_set ''decision_assist'' (coerce_decision_assist v) d2))"

text \<open>
  \<open>validate_and_coerce_analysis\<close>. The handler catches \<open>ValidationError\<close> only, and what
  it returns is \<open>AnalysisReport()\<close>, a call that validates in its turn. The argument is
  whatever \<open>json.loads\<close> gave: on a value that is no dictionary the membership tests,
  the item assignments or \<open>data.get\<close> raise \<open>TypeError\<close> or \<open>AttributeError\<close> (one
  \<^const>\<open>TypeError\<close> here; no handler tells them apart).
\<close>

definition validate_and_coerce_analysis :: "json \<Rightarrow> error + AnalysisReport" where
  "validate_and_coerce_analysis parsed =
     (case parsed of
        JObj data \<Rightarrow>
          (case coerce_analysis data of
             Inl e \<Rightarrow> Inl e
           | Inr d \<Rightarrow>
               (case AnalysisReport_init d of
                  Inr report \<Rightarrow> Inr report
                | Inl ValidationError \<Rightarrow> AnalysisReport_init []
                | Inl e \<Rightarrow> Inl e))
      | _ \<Rightarrow> Inl TypeError)"

text \<open>
  \<open>_summarize_document_sync\<close> (the name loses its leading underscore). \<open>if not text\<close>
  holds for \<open>None\<close> and for the empty string. Everything after that is inside the
  \<open>try\<close>; both handlers end in \<open>return AnalysisReport()\<close>.
\<close>

definition summarize_config :: llm_config where
  "summarize_config = \<lparr>temperature_tenths = 2, max_output_tokens = 4096\<rparr>"

definition summarize_document_sync ::
  "('emb, 'ix, 'blob) services \<Rightarrow> string \<Rightarrow> 'blob world
     \<Rightarrow> (error + AnalysisReport) \<times> 'blob world" where
  "summarize_document_sync sv doc_id w =
     (case load_extracted_text w doc_id of
        None \<Rightarrow> (Inl (ValueError (''No extracted text found for document '' @ doc_id)), w)
      | Some t \<Rightarrow>
          if t = []
          then (Inl (ValueError (''No extracted text found for document '' @ doc_id)), w)
          else
            let prompt = get_summarization_prompt t;
                w1 = called (Invoke summarize_config prompt) w
            in case llm_invoke sv summarize_config prompt of
                 Inl msg \<Rightarrow> (AnalysisReport_init [], w1)
               | Inr response_text \<Rightarrow>
                   (case json_loads sv (clean_json_response response_text) of
                      None \<Rightarrow> (AnalysisReport_init [], w1)
                    | Some analysis_data \<Rightarrow>
                        (case validate_and_coerce_analysis analysis_data of
                           Inr report \<Rightarrow> (Inr report, w1)
                         | Inl e \<Rightarrow> (AnalysisReport_init [], w1))))"

section \<open>The question-answering path (\<open>qa_engine.py\<close>)\<close>

text \<open>
  Lines 50 to 54: the texts of the documents, in the order of \<open>doc_ids\<close>; \<open>if text\<close>
  leaves out a document with no text and one with an empty text.
\<close>

fun all_texts :: "'blob world \<Rightarrow> string list \<Rightarrow> string list" where
  "all_texts w [] = []"
| "all_texts w (doc_id # doc_ids) =
     (case load_extracted_text w doc_id of
        None \<Rightarrow> all_texts w doc_ids
      | Some t \<Rightarrow> if t = [] then all_texts w doc_ids else t # all_texts w doc_ids)"

text \<open>
  Lines 49 to 86, the full build: collect the texts, join them, split, embed and
  index the chunks, save the index. The \<open>try\<close> around \<open>from_texts\<close> and \<open>save_local\<close>
  turns an exception of either into \<open>None\<close>.
\<close>

definition create_vector_store ::
  "('emb, 'ix, 'blob) services \<Rightarrow> 'emb \<Rightarrow> string list \<Rightarrow> 'blob world
     \<Rightarrow> 'ix option \<times> 'blob world" where
  "create_vector_store sv emb doc_ids w =
     (let texts = all_texts w doc_ids in
      if texts = [] then (None, w)
      else
        let combined_text =
              join ''\<newline>\<newline>---DOCUMENT SEPARATOR---\<newline>\<newline>'' texts;
            chunks = split_text sv combined_text
        in if chunks = [] then (None, w)
           else
             let w1 = called (FromTexts chunks) w in
             case FAISS_from_texts sv chunks emb of
               Inl msg \<Rightarrow> (None, w1)
             | Inr vector_store \<Rightarrow>
                 let w2 = called (SaveLocal (store_name doc_ids)) w1;
                     saved = FAISS_save_local sv vector_store (store_name doc_ids)
                               (vector_store_dir w2);
                     w3 = w2\<lparr>vector_store_dir := snd saved\<rparr>
                 in case fst saved of
                      Inl msg \<Rightarrow> (None, w3)
                    | Inr u \<Rightarrow> (Some vector_store, w3))"

text \<open>
  \<open>path.exists()\<close> for a file of \<open>VECTOR_STORE_DIR\<close>: it raises what the operating
  system raises, and is otherwise true exactly when the file is there.
\<close>

definition path_exists ::
  "('emb, 'ix, 'blob) services \<Rightarrow> 'blob world \<Rightarrow> string \<Rightarrow> string + bool" where
  "path_exists sv w name =
     (case exists_error sv name of
        Some msg \<Rightarrow> Inl msg
      | None \<Rightarrow> Inr (vector_store_dir w name \<noteq> None))"

text \<open>
  \<open>get_or_create_vector_store\<close>. Line 30 returns \<open>None\<close> before anything else when the
  embeddings handle is missing. The two \<open>exists\<close> of line 38 stand outside every \<open>try\<close>
  of the function, so what they raise leaves the function (\<^term>\<open>Inl msg\<close>); the
  second is evaluated only when the first is true. The load is tried only when both
  files exist; when it raises, the exception is printed and the build follows.
\<close>

definition get_or_create_vector_store ::
  "('emb, 'ix, 'blob) services \<Rightarrow> string list \<Rightarrow> 'blob world
     \<Rightarrow> (string + 'ix option) \<times> 'blob world" where
  "get_or_create_vector_store sv doc_ids w =
     (case embeddings sv of
        None \<Rightarrow> (Inr None, w)
      | Some emb \<Rightarrow>
          (case path_exists sv w (store_name doc_ids @ ''.faiss'') of
             Inl msg \<Rightarrow> (Inl msg, w)
           | Inr faiss_exists \<Rightarrow>
               (case (if faiss_exists
                      then path_exists sv w (store_name doc_ids @ ''.pkl'')
                      else Inr False) of
                  Inl msg \<Rightarrow> (Inl msg, w)
                | Inr both_exist \<Rightarrow>
                    (case (both_exist,
                           vector_store_dir w (store_name doc_ids @ ''.faiss''),
                           vector_store_dir w (store_name doc_ids @ ''.pkl'')) of
                       (True, Some faiss_file, Some pkl_file) \<Rightarrow>
                         let w1 = called (LoadLocal (store_name doc_ids)) w in
                         (case FAISS_load_local sv emb faiss_file pkl_file of
                            Inr vector_store \<Rightarrow> (Inr (Some vector_store), w1)
                          | Inl msg \<Rightarrow>
                              apfst Inr (create_vector_store sv emb doc_ids w1))
                     | _ \<Rightarrow>
                         apfst Inr (create_vector_store sv emb doc_ids w)))))"

definition get_qa_prompt :: "string \<Rightarrow> string \<Rightarrow> string" where
  \<open>get_qa_prompt query context_in =
     ''You are a helpful legal document assistant. Answer the user\'s question based on the following document context.\<newline>'' @
     ''\<newline>'' @
     ''Document Context:\<newline>'' @
     context_in @
     ''\<newline>'' @
     ''\<newline>'' @
     ''User Question: '' @
     query @
     ''\<newline>'' @
     ''\<newline>'' @
     ''Provide a clear, concise, and accurate answer based solely on the document context provided. If the context doesn\'t contain enough information to answer the question, say so. Do not make up information.\<newline>'' @
     ''\<newline>'' @
     ''Answer:''\<close>

definition chat_config :: llm_config where
  "chat_config = \<lparr>temperature_tenths = 3, max_output_tokens = 2048\<rparr>"

definition no_documents_message :: string where
  "no_documents_message = ''No documents available to answer your question.''"

definition no_vector_store_message :: string where
  "no_vector_store_message =
     ''Error: Could not create vector store from documents. Please ensure documents are properly processed.''"

definition error_message :: "string \<Rightarrow> string" where
  "error_message msg =
     ''Sorry, I encountered an error while processing your question: '' @ msg"

text \<open>
  The body of the \<open>try\<close> of \<open>_chat_with_documents_sync\<close> (lines 118 to 142): a string
  to return, or \<^term>\<open>Inl msg\<close> for an exception with text \<open>msg\<close> raised by
  \<open>get_or_create_vector_store\<close>, by the search or by the completion.
\<close>

definition chat_body ::
  "('emb, 'ix, 'blob) services \<Rightarrow> string list \<Rightarrow> string \<Rightarrow> 'blob world
     \<Rightarrow> (string + string) \<times> 'blob world" where
  "chat_body sv doc_ids query w =
     (case get_or_create_vector_store sv doc_ids w of
        (Inl msg, w1) \<Rightarrow> (Inl msg, w1)
      | (Inr None, w1) \<Rightarrow> (Inr no_vector_store_message, w1)
      | (Inr (Some vector_store), w1) \<Rightarrow>
          let w2 = called (SimilaritySearch query 3) w1 in
          case similarity_search sv vector_store query 3 of
            Inl msg \<Rightarrow> (Inl msg, w2)
          | Inr docs \<Rightarrow>
              let context_text = join ''\<newline>\<newline>'' docs;
                  prompt = get_qa_prompt query context_text;
                  w3 = called (Invoke chat_config prompt) w2
              in case llm_invoke sv chat_config prompt of
                   Inl msg \<Rightarrow> (Inl msg, w3)
                 | Inr content \<Rightarrow> (Inr content, w3))"

text \<open>
  \<open>_chat_with_documents_sync\<close> (the name loses its leading underscore): the empty list
  is answered before the \<open>try\<close>; the handler of line 143 turns every exception of the
  body into a message.
\<close>

definition chat_with_documents_sync ::
  "('emb, 'ix, 'blob) services \<Rightarrow> string list \<Rightarrow> string \<Rightarrow> 'blob world
     \<Rightarrow> string \<times> 'blob world" where
  "chat_with_documents_sync sv doc_ids query w =
     (if doc_ids = [] then (no_documents_message, w)
      else
        case chat_body sv doc_ids query w of
          (Inr answer, w1) \<Rightarrow> (answer, w1)
        | (Inl msg, w1) \<Rightarrow> (error_message msg, w1))"

section \<open>Test doubles\<close>

text \<open>
  Capabilities for running the functions on concrete inputs. The index is the list of
  its chunks, a file is a string. The splitter gives one chunk for a text that is not
  empty, the search returns the first \<open>k\<close> chunks, saving writes both files, and a
  file name of more than 255 characters cannot be looked up. The embeddings handle, the outcome of the completion and the outcome of \<open>json.loads\<close> are
  chosen by the caller.
\<close>

definition stub_services ::
  "unit option \<Rightarrow> string + string \<Rightarrow> json option \<Rightarrow> (unit, string list, string) services" where
  "stub_services emb completion parsed =
     \<lparr>embeddings = emb,
      split_text = (\<lambda>s. if s = [] then [] else [s]),
      FAISS_from_texts = (\<lambda>chunks e. Inr chunks),
      FAISS_load_local = (\<lambda>e faiss_file pkl_file. Inr [pkl_file]),
      FAISS_save_local =
        (\<lambda>ix name dir.
           (Inr (), dir(name @ ''.faiss'' \<mapsto> ''vectors'', name @ ''.pkl'' \<mapsto> concat ix))),
      similarity_search = (\<lambda>ix query k. Inr (take k ix)),
      llm_invoke = (\<lambda>cfg prompt. completion),
      json_loads = (\<lambda>s. parsed),
      exists_error =
        (\<lambda>name. if 255 < length name then Some ''[Errno 36] File name too long''
                 else None)\<rparr>"

text \<open>A world with the extracted text of one document and no saved index.\<close>

definition stub_world :: "string world" where
  "stub_world =
     \<lparr>text_cache = [''extract_doc1.txt'' \<mapsto> Readable ''Lease agreement''],
      vector_store_dir = Map.empty,
      calls = []\<rparr>"

text \<open>The same world after an index for \<open>doc1\<close> was saved.\<close>

definition stub_world_indexed :: "string world" where
  "stub_world_indexed =
     \<lparr>text_cache = [''extract_doc1.txt'' \<mapsto> Readable ''Lease agreement''],
      vector_store_dir =
        [''doc1.faiss'' \<mapsto> ''vectors'', ''doc1.pkl'' \<mapsto> ''Lease agreement''],
      calls = []\<rparr>"

text \<open>Seven document identifiers, as \<open>uuid.uuid4\<close> gives them.\<close>

definition seven_doc_ids :: "string list" where
  "seven_doc_ids =
     [''6513270e-269e-4d37-b2a7-4de452e6b438'',
      ''d23f0824-128b-4f33-8c5c-7fd0a6a3a450'',
      ''9531985d-5d9d-49f8-9818-e811892f902b'',
      ''36f675cc-81e7-4ef5-a8e2-5d940ed90475'',
      ''6b0d549b-6f03-475a-9600-a35a099950d8'',
      ''8d116ece-1738-47d9-bd9c-172411e20b8f'',
      ''90c192cf-d3ac-44af-8f21-ddb66cad4a26'']"

section \<open>Lemmas on dictionaries\<close>

lemma map_of_dict_set: "map_of (dict_set k v d) = (map_of d)(k \<mapsto> v)"
  by (induction d) auto

lemma map_of_backfill:
  "map_of (backfill k v d) k' =
     (if k' = k \<and> map_of d k = None then Some v else map_of d k')"
  by (simp add: backfill_def map_of_dict_set)

section \<open>The cache key\<close>

lemma sep_split_unique:
  "c \<notin> set x \<Longrightarrow> c \<notin> set y \<Longrightarrow> x @ c # r1 = y @ c # r2 \<Longrightarrow> x = y \<and> r1 = r2"
proof (induction x arbitrary: y)
  case Nil
  then show ?case by (cases y) auto
next
  case (Cons a x)
  then show ?case by (cases y) auto
qed

lemma join_Cons_Cons: "join sep (x # y # ys) = x @ sep @ join sep (y # ys)"
  by simp

lemma join_Nil_iff:
  "list_all plain_id xs \<Longrightarrow> join ''_'' xs = [] \<longleftrightarrow> xs = []"
  by (cases "(''_'', xs)" rule: join.cases) (auto simp: plain_id_def)

lemma join_inj:
  "list_all plain_id xs \<Longrightarrow> list_all plain_id ys \<Longrightarrow>
    join ''_'' xs = join ''_'' ys \<Longrightarrow> xs = ys"
proof (induction xs arbitrary: ys)
  case Nil
  then show ?case using join_Nil_iff[of ys] by simp
next
  case (Cons x xs)
  from Cons.prems have px: "CHR ''_'' \<notin> set x" "x \<noteq> []" by (auto simp: plain_id_def)
  show ?case
  proof (cases ys)
    case Nil
    with Cons.prems show ?thesis using join_Nil_iff[of "x # xs"] by simp
  next
    case ys: (Cons y ys')
    from Cons.prems ys have py: "CHR ''_'' \<notin> set y" by (auto simp: plain_id_def)
    show ?thesis
    proof (cases xs)
      case xn: Nil
      show ?thesis
      proof (cases ys')
        case Nil
        with Cons.prems ys xn show ?thesis by simp
      next
        case (Cons z zs)
        with Cons.prems ys xn have "x = y @ CHR ''_'' # join ''_'' (z # zs)" by simp
        with px show ?thesis by simp
      qed
    next
      case xc: (Cons x2 xs2)
      show ?thesis
      proof (cases ys')
        case Nil
        with Cons.prems ys xc have "y = x @ CHR ''_'' # join ''_'' (x2 # xs2)" by simp
        with py show ?thesis by simp
      next
        case yc: (Cons z zs)
        from Cons.prems(3) have "join ''_'' (x # x2 # xs2) = join ''_'' (y # z # zs)"
          by (simp only: ys xc yc)
        then have e: "x @ CHR ''_'' # join ''_'' xs = y @ CHR ''_'' # join ''_'' ys'"
          by (simp only: join_Cons_Cons xc yc append_Cons append_Nil)
        have xy: "x = y \<and> join ''_'' xs = join ''_'' ys'"
          by (rule sep_split_unique[OF px(1) py e])
        from Cons.prems(1) have p1: "list_all plain_id xs" by simp
        from Cons.prems(2) ys have p2: "list_all plain_id ys'" by simp
        from xy have "xs = ys'" by (intro Cons.IH[OF p1 p2]) simp
        with xy ys show ?thesis by simp
      qed
    qed
  qed
qed

lemma sort_eq_of_mset_eq: "mset S1 = mset S2 \<Longrightarrow> sort S1 = sort S2"
proof -
  assume "mset S1 = mset S2"
  then have "mset (sort S2) = mset S1" by simp
  then show "sort S1 = sort S2" by (rule properties_for_sort) simp
qed

lemma store_name_inj:
  assumes "list_all plain_id S1" "list_all plain_id S2" "store_name S1 = store_name S2"
  shows "mset S1 = mset S2"
proof -
  have p: "list_all plain_id (sort S1)" "list_all plain_id (sort S2)"
    using assms(1,2) by (simp_all add: list_all_iff)
  from assms(3) have "join ''_'' (sort S1) = join ''_'' (sort S2)" by (simp add: store_name_def)
  with p have "sort S1 = sort S2" by (intro join_inj)
  then have "mset (sort S1) = mset (sort S2)" by simp
  then show ?thesis by simp
qed

text \<open>
  Claim C1, as the code has it. The key does not depend on the order of the
  identifiers: two lists with the same identifiers, each as often in one as in the
  other, get the same key. Duplicates are not removed, so the key depends on how often
  an identifier occurs. For lists of identifiers that are not empty and contain no
  underscore, two lists get the same key exactly when they hold the same identifiers
  equally often.
\<close>

theorem store_name_multiset:
  "(mset S1 = mset S2 \<longrightarrow> store_name S1 = store_name S2) \<and>
   (list_all plain_id S1 \<and> list_all plain_id S2 \<longrightarrow>
      (store_name S1 = store_name S2 \<longleftrightarrow> mset S1 = mset S2))"
  using sort_eq_of_mset_eq[of S1 S2] store_name_inj[of S1 S2]
  by (auto simp: store_name_def)

text \<open>The theorem at the lists \<open>[b2, a1]\<close> and \<open>[a1, b2]\<close>.\<close>

theorem store_name_multiset_witness:
  "mset [''b2'', ''a1''] = mset [''a1'', ''b2''] \<and>
   list_all plain_id [''b2'', ''a1''] \<and> list_all plain_id [''a1'', ''b2''] \<and>
   store_name [''b2'', ''a1''] = store_name [''a1'', ''b2''] \<and>
   store_name [''a1'', ''b2''] = ''a1_b2''"
  using store_name_multiset[of "[''b2'', ''a1'']" "[''a1'', ''b2'']"]
  by (simp add: plain_id_def store_name_def)

text \<open>
  Claim C1 as the spec states it (same key exactly when the lists are equal as sets)
  fails in both directions: \<open>[a, a]\<close> and \<open>[a]\<close> are the same set with the keys \<open>a_a\<close>
  and \<open>a\<close>; \<open>[a_b]\<close> and \<open>[a, b]\<close> are different sets with the one key \<open>a_b\<close>.
\<close>

theorem store_name_set_counterexample:
  "set [''a'', ''a''] = set [''a''] \<and>
   store_name [''a'', ''a''] \<noteq> store_name [''a''] \<and>
   set [''a_b''] \<noteq> set [''a'', ''b''] \<and>
   store_name [''a_b''] = store_name [''a'', ''b'']"
  by (simp add: store_name_def)

section \<open>The report models\<close>

text \<open>
  Claim C2 says that \<open>AnalysisReport()\<close> always succeeds and is the all-defaults report.
  In the code \<open>DecisionAssist.overall_take\<close> has no default, so the default factory
  \<open>DecisionAssist()\<close> raises \<open>ValidationError\<close>, and \<open>AnalysisReport()\<close> with it.
\<close>

theorem AnalysisReport_no_arguments:
  "DecisionAssist_fields [] = None \<and> AnalysisReport_init [] = Inl ValidationError"
  by (simp add: DecisionAssist_fields_def AnalysisReport_init_def AnalysisReport_fields_def
      defaulted_def required_def)

section \<open>The question-answering path\<close>

lemma store_name_doc1: "store_name [''doc1''] = ''doc1''"
  by (simp add: store_name_def)

text \<open>The length of a key: the lengths of the identifiers and one underscore between two.\<close>

lemma length_join:
  "length (join sep xs) = sum_list (map length xs) + length sep * (length xs - 1)"
  by (induction sep xs rule: join.induct) simp_all

lemma length_store_name:
  "length (store_name doc_ids) = sum_list (map length doc_ids) + (length doc_ids - 1)"
proof -
  have "sum_list (map length (sort doc_ids)) = sum_mset (mset (map length (sort doc_ids)))"
    by (simp only: sum_mset_sum_list)
  also have "\<dots> = sum_mset (mset (map length doc_ids))" by simp
  also have "\<dots> = sum_list (map length doc_ids)" by (simp only: sum_mset_sum_list)
  finally show ?thesis by (simp add: store_name_def length_join)
qed

lemma length_store_name_seven: "length (store_name seven_doc_ids) = 258"
  by (simp add: length_store_name seven_doc_ids_def)

text \<open>Recording a call does not change the texts.\<close>

lemma all_texts_called: "all_texts (called e w) doc_ids = all_texts w doc_ids"
  by (induction doc_ids)
     (simp_all add: called_def load_extracted_text_def split: option.splits cached_file.splits)

text \<open>A build whose \<open>from_texts\<close> raises gives no index.\<close>

lemma create_vector_store_from_texts_fails:
  assumes "FAISS_from_texts sv
             (split_text sv
               (join ''\<newline>\<newline>---DOCUMENT SEPARATOR---\<newline>\<newline>'' (all_texts w doc_ids)))
             emb = Inl msg"
  shows "fst (create_vector_store sv emb doc_ids w) = None"
  using assms by (simp add: create_vector_store_def Let_def)

text \<open>The build on the test doubles: one document, one chunk, both files written.\<close>

lemma get_or_create_stub:
  "get_or_create_vector_store (stub_services (Some ()) completion parsed) [''doc1''] stub_world =
     (Inr (Some [''Lease agreement'']),
      stub_world\<lparr>vector_store_dir :=
                   [''doc1.faiss'' \<mapsto> ''vectors'', ''doc1.pkl'' \<mapsto> ''Lease agreement''],
                 calls := [FromTexts [''Lease agreement''], SaveLocal ''doc1'']\<rparr>)"
proof -
  have t: "all_texts stub_world [''doc1''] = [''Lease agreement'']"
    by (simp add: stub_world_def load_extracted_text_def)
  have c: "create_vector_store (stub_services (Some ()) completion parsed) () [''doc1'']
        stub_world =
      (Some [''Lease agreement''],
       stub_world\<lparr>vector_store_dir :=
              [''doc1.faiss'' \<mapsto> ''vectors'', ''doc1.pkl'' \<mapsto> ''Lease agreement''],
           calls := [FromTexts [''Lease agreement''], SaveLocal ''doc1'']\<rparr>)"
    unfolding create_vector_store_def t
    by (simp add: stub_services_def store_name_doc1 called_def stub_world_def Let_def)
  have e: "embeddings (stub_services (Some ()) completion parsed) = Some ()"
    by (simp add: stub_services_def)
  have p: "path_exists (stub_services (Some ()) completion parsed) stub_world
             (store_name [''doc1''] @ ''.faiss'') = Inr False"
    by (simp add: path_exists_def stub_services_def stub_world_def store_name_doc1)
  show ?thesis
    unfolding get_or_create_vector_store_def e p
    by (simp add: c)
qed

text \<open>
  With seven identifiers the name of the \<open>.faiss\<close> file has 264 characters, and the first
  \<open>exists\<close> raises.
\<close>

lemma get_or_create_seven:
  "get_or_create_vector_store (stub_services (Some ()) completion parsed) seven_doc_ids
     stub_world = (Inl ''[Errno 36] File name too long'', stub_world)"
proof -
  have e: "embeddings (stub_services (Some ()) completion parsed) = Some ()"
    by (simp add: stub_services_def)
  have p: "path_exists (stub_services (Some ()) completion parsed) stub_world
             (store_name seven_doc_ids @ ''.faiss'') = Inl ''[Errno 36] File name too long''"
    by (simp add: path_exists_def stub_services_def length_store_name_seven)
  show ?thesis
    unfolding get_or_create_vector_store_def e p by simp
qed

text \<open>
  Claim C6, as the code has it. When the embeddings handle is there and the two
  \<open>exists\<close> of line 38 do not raise: if the \<open>.faiss\<close> file or the \<open>.pkl\<close> file of the
  key is missing, no load is tried and the outcome is that of the full build; if both
  exist and \<open>load_local\<close> raises, the outcome is again that of the full build (after
  the one load call), and the load's exception is not raised; if both exist and the
  load succeeds, the loaded index is returned.
\<close>

theorem load_needs_both_files:
  assumes "embeddings sv = Some emb"
    and "exists_error sv (store_name doc_ids @ ''.faiss'') = None"
    and "exists_error sv (store_name doc_ids @ ''.pkl'') = None"
  shows
   "(vector_store_dir w (store_name doc_ids @ ''.faiss'') = None \<or>
     vector_store_dir w (store_name doc_ids @ ''.pkl'') = None \<longrightarrow>
       get_or_create_vector_store sv doc_ids w =
         apfst Inr (create_vector_store sv emb doc_ids w)) \<and>
    (\<forall>f p msg.
       vector_store_dir w (store_name doc_ids @ ''.faiss'') = Some f \<and>
       vector_store_dir w (store_name doc_ids @ ''.pkl'') = Some p \<and>
       FAISS_load_local sv emb f p = Inl msg \<longrightarrow>
       get_or_create_vector_store sv doc_ids w =
         apfst Inr
           (create_vector_store sv emb doc_ids (called (LoadLocal (store_name doc_ids)) w))) \<and>
    (\<forall>f p vector_store.
       vector_store_dir w (store_name doc_ids @ ''.faiss'') = Some f \<and>
       vector_store_dir w (store_name doc_ids @ ''.pkl'') = Some p \<and>
       FAISS_load_local sv emb f p = Inr vector_store \<longrightarrow>
       get_or_create_vector_store sv doc_ids w =
         (Inr (Some vector_store), called (LoadLocal (store_name doc_ids)) w))"
  using assms
  by (auto simp: get_or_create_vector_store_def path_exists_def split: option.splits)

text \<open>
  The theorem on a directory that holds the \<open>.faiss\<close> file only: the index is built
  from the text and saved; no load is called.
\<close>

theorem load_needs_both_files_witness:
  "embeddings (stub_services (Some ()) (Inr ''answer'') None) = Some () \<and>
   exists_error (stub_services (Some ()) (Inr ''answer'') None)
     (store_name [''doc1''] @ ''.faiss'') = None \<and>
   exists_error (stub_services (Some ()) (Inr ''answer'') None)
     (store_name [''doc1''] @ ''.pkl'') = None \<and>
   vector_store_dir (stub_world\<lparr>vector_store_dir := [''doc1.faiss'' \<mapsto> ''vectors'']\<rparr>)
     (store_name [''doc1''] @ ''.faiss'') = Some ''vectors'' \<and>
   vector_store_dir (stub_world\<lparr>vector_store_dir := [''doc1.faiss'' \<mapsto> ''vectors'']\<rparr>)
     (store_name [''doc1''] @ ''.pkl'') = None \<and>
   get_or_create_vector_store (stub_services (Some ()) (Inr ''answer'') None) [''doc1'']
       (stub_world\<lparr>vector_store_dir := [''doc1.faiss'' \<mapsto> ''vectors'']\<rparr>) =
     apfst Inr
       (create_vector_store (stub_services (Some ()) (Inr ''answer'') None) () [''doc1'']
         (stub_world\<lparr>vector_store_dir := [''doc1.faiss'' \<mapsto> ''vectors'']\<rparr>)) \<and>
   fst (get_or_create_vector_store (stub_services (Some ()) (Inr ''answer'') None) [''doc1'']
       (stub_world\<lparr>vector_store_dir := [''doc1.faiss'' \<mapsto> ''vectors'']\<rparr>)) =
     Inr (Some [''Lease agreement'']) \<and>
   calls (snd (get_or_create_vector_store (stub_services (Some ()) (Inr ''answer'') None)
       [''doc1''] (stub_world\<lparr>vector_store_dir := [''doc1.faiss'' \<mapsto> ''vectors'']\<rparr>))) =
     [FromTexts [''Lease agreement''], SaveLocal ''doc1'']"
proof -
  let ?sv = "stub_services (Some ()) (Inr ''answer'') None"
  let ?w = "stub_world\<lparr>vector_store_dir := [''doc1.faiss'' \<mapsto> ''vectors'']\<rparr>"
  have e: "embeddings ?sv = Some ()" by (simp add: stub_services_def)
  have x1: "exists_error ?sv (store_name [''doc1''] @ ''.faiss'') = None"
    by (simp add: stub_services_def store_name_doc1)
  have x2: "exists_error ?sv (store_name [''doc1''] @ ''.pkl'') = None"
    by (simp add: stub_services_def store_name_doc1)
  have f: "vector_store_dir ?w (store_name [''doc1''] @ ''.faiss'') = Some ''vectors''"
    by (simp add: store_name_doc1)
  have p: "vector_store_dir ?w (store_name [''doc1''] @ ''.pkl'') = None"
    by (simp add: store_name_doc1)
  from load_needs_both_files[OF e x1 x2, of ?w] p
  have g: "get_or_create_vector_store ?sv [''doc1''] ?w =
      apfst Inr (create_vector_store ?sv () [''doc1''] ?w)"
    by blast
  have t: "all_texts ?w [''doc1''] = [''Lease agreement'']"
    by (simp add: stub_world_def load_extracted_text_def)
  have c: "create_vector_store ?sv () [''doc1''] ?w =
      (Some [''Lease agreement''],
       ?w\<lparr>vector_store_dir :=
              [''doc1.faiss'' \<mapsto> ''vectors'', ''doc1.pkl'' \<mapsto> ''Lease agreement''],
           calls := [FromTexts [''Lease agreement''], SaveLocal ''doc1'']\<rparr>)"
    unfolding create_vector_store_def t
    by (simp add: stub_services_def store_name_doc1 called_def stub_world_def Let_def)
  show ?thesis using e x1 x2 f p g c by simp
qed

text \<open>
  Claim C6 as the spec states it has no condition. Without the embeddings handle, and
  with both files missing and a text to build from, nothing is built: the result is
  \<open>None\<close> and no call is made. With the handle and seven identifiers, both files
  missing, the function raises \<open>OSError\<close> at the first \<open>exists\<close> where the claim says
  it builds instead of raising.
\<close>

theorem get_or_create_no_rebuild_counterexample:
  "embeddings (stub_services None (Inr ''answer'') None) = None \<and>
   vector_store_dir stub_world (store_name [''doc1''] @ ''.faiss'') = None \<and>
   vector_store_dir stub_world (store_name [''doc1''] @ ''.pkl'') = None \<and>
   all_texts stub_world [''doc1''] = [''Lease agreement''] \<and>
   get_or_create_vector_store (stub_services None (Inr ''answer'') None) [''doc1'']
     stub_world = (Inr None, stub_world) \<and>
   calls stub_world = [] \<and>
   embeddings (stub_services (Some ()) (Inr ''answer'') None) = Some () \<and>
   vector_store_dir stub_world (store_name seven_doc_ids @ ''.faiss'') = None \<and>
   get_or_create_vector_store (stub_services (Some ()) (Inr ''answer'') None) seven_doc_ids
     stub_world = (Inl ''[Errno 36] File name too long'', stub_world)"
proof -
  have t: "all_texts stub_world [''doc1''] = [''Lease agreement'']"
    by (simp add: stub_world_def load_extracted_text_def)
  have g: "get_or_create_vector_store (stub_services None (Inr ''answer'') None) [''doc1'']
      stub_world = (Inr None, stub_world)"
    by (simp add: get_or_create_vector_store_def stub_services_def)
  show ?thesis using t g get_or_create_seven[of "Inr ''answer''" None]
    by (simp add: stub_services_def stub_world_def)
qed

text \<open>
  Claim C7: for every query, the empty list of identifiers gets the fixed
  no-documents message, and the world is unchanged: no call of the embedding
  capability, of the completion capability, of an index build or of a load is
  recorded, whatever the capabilities are.
\<close>

theorem chat_no_documents:
  "chat_with_documents_sync sv [] query w =
     (''No documents available to answer your question.'', w)"
  by (simp add: chat_with_documents_sync_def no_documents_message_def)

text \<open>
  Claim C8, as the code has it. For a list of identifiers that is not empty, every
  exception of the body becomes the fixed message with the text of the exception, and
  every other outcome of the body is returned, so nothing is raised to the caller.
  \<^item> When \<open>get_or_create_vector_store\<close> raises (an \<open>exists\<close> of line 38), when the
    search raises or when the completion raises, the answer is the fixed message with
    the text of the failure.
  \<^item> When there is no index, the answer is the fixed indexing message. This is also
    the answer when the embedding fails inside the build (\<open>from_texts\<close> raises, with
    no index loaded before): \<open>get_or_create_vector_store\<close> catches that exception and
    returns \<open>None\<close>, so the text of the failure is not in the answer.
  \<^item> Otherwise the answer is the text of the completion.
\<close>

theorem chat_never_raises:
  assumes "doc_ids \<noteq> []"
  shows
   "(\<forall>msg w1. chat_body sv doc_ids query w = (Inl msg, w1) \<longrightarrow>
       chat_with_documents_sync sv doc_ids query w =
         (''Sorry, I encountered an error while processing your question: '' @ msg, w1)) \<and>
    (\<forall>answer w1. chat_body sv doc_ids query w = (Inr answer, w1) \<longrightarrow>
       chat_with_documents_sync sv doc_ids query w = (answer, w1)) \<and>
    (\<forall>msg.
       fst (get_or_create_vector_store sv doc_ids w) = Inl msg \<longrightarrow>
       fst (chat_with_documents_sync sv doc_ids query w) =
         ''Sorry, I encountered an error while processing your question: '' @ msg) \<and>
    (fst (get_or_create_vector_store sv doc_ids w) = Inr None \<longrightarrow>
       fst (chat_with_documents_sync sv doc_ids query w) =
         ''Error: Could not create vector store from documents. Please ensure documents are properly processed.'') \<and>
    (\<forall>emb msg.
       embeddings sv = Some emb \<and>
       exists_error sv (store_name doc_ids @ ''.faiss'') = None \<and>
       exists_error sv (store_name doc_ids @ ''.pkl'') = None \<and>
       (\<forall>f p. vector_store_dir w (store_name doc_ids @ ''.faiss'') = Some f \<and>
              vector_store_dir w (store_name doc_ids @ ''.pkl'') = Some p \<longrightarrow>
              (\<exists>m. FAISS_load_local sv emb f p = Inl m)) \<and>
       FAISS_from_texts sv
         (split_text sv
           (join ''\<newline>\<newline>---DOCUMENT SEPARATOR---\<newline>\<newline>'' (all_texts w doc_ids)))
         emb = Inl msg \<longrightarrow>
       fst (chat_with_documents_sync sv doc_ids query w) =
         ''Error: Could not create vector store from documents. Please ensure documents are properly processed.'') \<and>
    (\<forall>vector_store msg.
       fst (get_or_create_vector_store sv doc_ids w) = Inr (Some vector_store) \<and>
       similarity_search sv vector_store query 3 = Inl msg \<longrightarrow>
       fst (chat_with_documents_sync sv doc_ids query w) =
         ''Sorry, I encountered an error while processing your question: '' @ msg) \<and>
    (\<forall>vector_store docs msg.
       fst (get_or_create_vector_store sv doc_ids w) = Inr (Some vector_store) \<and>
       similarity_search sv vector_store query 3 = Inr docs \<and>
       llm_invoke sv chat_config (get_qa_prompt query (join ''\<newline>\<newline>'' docs)) = Inl msg \<longrightarrow>
       fst (chat_with_documents_sync sv doc_ids query w) =
         ''Sorry, I encountered an error while processing your question: '' @ msg) \<and>
    (\<forall>vector_store docs content.
       fst (get_or_create_vector_store sv doc_ids w) = Inr (Some vector_store) \<and>
       similarity_search sv vector_store query 3 = Inr docs \<and>
       llm_invoke sv chat_config (get_qa_prompt query (join ''\<newline>\<newline>'' docs)) = Inr content \<longrightarrow>
       fst (chat_with_documents_sync sv doc_ids query w) = content)"
proof -
  obtain r w1 where g: "get_or_create_vector_store sv doc_ids w = (r, w1)"
    by (cases "get_or_create_vector_store sv doc_ids w")
  have m1: "\<forall>msg w1. chat_body sv doc_ids query w = (Inl msg, w1) \<longrightarrow>
       chat_with_documents_sync sv doc_ids query w =
         (''Sorry, I encountered an error while processing your question: '' @ msg, w1)"
    and m2: "\<forall>answer w1. chat_body sv doc_ids query w = (Inr answer, w1) \<longrightarrow>
       chat_with_documents_sync sv doc_ids query w = (answer, w1)"
    and m3: "\<forall>msg.
       fst (get_or_create_vector_store sv doc_ids w) = Inl msg \<longrightarrow>
       fst (chat_with_documents_sync sv doc_ids query w) =
         ''Sorry, I encountered an error while processing your question: '' @ msg"
    and m4: "fst (get_or_create_vector_store sv doc_ids w) = Inr None \<longrightarrow>
       fst (chat_with_documents_sync sv doc_ids query w) =
         ''Error: Could not create vector store from documents. Please ensure documents are properly processed.''"
    and m5: "\<forall>vector_store msg.
       fst (get_or_create_vector_store sv doc_ids w) = Inr (Some vector_store) \<and>
       similarity_search sv vector_store query 3 = Inl msg \<longrightarrow>
       fst (chat_with_documents_sync sv doc_ids query w) =
         ''Sorry, I encountered an error while processing your question: '' @ msg"
    and m6: "\<forall>vector_store docs msg.
       fst (get_or_create_vector_store sv doc_ids w) = Inr (Some vector_store) \<and>
       similarity_search sv vector_store query 3 = Inr docs \<and>
       llm_invoke sv chat_config (get_qa_prompt query (join ''\<newline>\<newline>'' docs)) = Inl msg \<longrightarrow>
       fst (chat_with_documents_sync sv doc_ids query w) =
         ''Sorry, I encountered an error while processing your question: '' @ msg"
    and m7: "\<forall>vector_store docs content.
       fst (get_or_create_vector_store sv doc_ids w) = Inr (Some vector_store) \<and>
       similarity_search sv vector_store query 3 = Inr docs \<and>
       llm_invoke sv chat_config (get_qa_prompt query (join ''\<newline>\<newline>'' docs)) = Inr content \<longrightarrow>
       fst (chat_with_documents_sync sv doc_ids query w) = content"
    using assms g
    by (auto simp: chat_with_documents_sync_def chat_body_def error_message_def
        no_vector_store_message_def Let_def split: option.splits sum.splits prod.splits)
  have build:
   "\<forall>emb msg.
       embeddings sv = Some emb \<and>
       exists_error sv (store_name doc_ids @ ''.faiss'') = None \<and>
       exists_error sv (store_name doc_ids @ ''.pkl'') = None \<and>
       (\<forall>f p. vector_store_dir w (store_name doc_ids @ ''.faiss'') = Some f \<and>
              vector_store_dir w (store_name doc_ids @ ''.pkl'') = Some p \<longrightarrow>
              (\<exists>m. FAISS_load_local sv emb f p = Inl m)) \<and>
       FAISS_from_texts sv
         (split_text sv
           (join ''\<newline>\<newline>---DOCUMENT SEPARATOR---\<newline>\<newline>'' (all_texts w doc_ids)))
         emb = Inl msg \<longrightarrow>
       fst (get_or_create_vector_store sv doc_ids w) = Inr None"
  proof (intro allI impI, elim conjE)
    fix emb msg
    assume e: "embeddings sv = Some emb"
      and x1: "exists_error sv (store_name doc_ids @ ''.faiss'') = None"
      and x2: "exists_error sv (store_name doc_ids @ ''.pkl'') = None"
      and l: "\<forall>f p. vector_store_dir w (store_name doc_ids @ ''.faiss'') = Some f \<and>
              vector_store_dir w (store_name doc_ids @ ''.pkl'') = Some p \<longrightarrow>
              (\<exists>m. FAISS_load_local sv emb f p = Inl m)"
      and f: "FAISS_from_texts sv
         (split_text sv
           (join ''\<newline>\<newline>---DOCUMENT SEPARATOR---\<newline>\<newline>'' (all_texts w doc_ids)))
         emb = Inl msg"
    have c1: "fst (create_vector_store sv emb doc_ids w) = None"
      by (rule create_vector_store_from_texts_fails[OF f])
    have "FAISS_from_texts sv
         (split_text sv
           (join ''\<newline>\<newline>---DOCUMENT SEPARATOR---\<newline>\<newline>''
             (all_texts (called (LoadLocal (store_name doc_ids)) w) doc_ids)))
         emb = Inl msg"
      using f by (simp only: all_texts_called)
    then have c2: "fst (create_vector_store sv emb doc_ids
                     (called (LoadLocal (store_name doc_ids)) w)) = None"
      by (rule create_vector_store_from_texts_fails)
    show "fst (get_or_create_vector_store sv doc_ids w) = Inr None"
    proof (cases "vector_store_dir w (store_name doc_ids @ ''.faiss'') = None \<or>
                  vector_store_dir w (store_name doc_ids @ ''.pkl'') = None")
      case True
      then show ?thesis
        using e x1 x2 c1
        by (auto simp: get_or_create_vector_store_def path_exists_def split: option.splits)
    next
      case False
      then obtain fa pk where
        fp: "vector_store_dir w (store_name doc_ids @ ''.faiss'') = Some fa"
            "vector_store_dir w (store_name doc_ids @ ''.pkl'') = Some pk"
        by auto
      with l obtain m where m: "FAISS_load_local sv emb fa pk = Inl m" by blast
      show ?thesis
        using e x1 x2 fp m c2
        by (simp add: get_or_create_vector_store_def path_exists_def)
    qed
  qed
  have c5: "\<forall>emb msg.
       embeddings sv = Some emb \<and>
       exists_error sv (store_name doc_ids @ ''.faiss'') = None \<and>
       exists_error sv (store_name doc_ids @ ''.pkl'') = None \<and>
       (\<forall>f p. vector_store_dir w (store_name doc_ids @ ''.faiss'') = Some f \<and>
              vector_store_dir w (store_name doc_ids @ ''.pkl'') = Some p \<longrightarrow>
              (\<exists>m. FAISS_load_local sv emb f p = Inl m)) \<and>
       FAISS_from_texts sv
         (split_text sv
           (join ''\<newline>\<newline>---DOCUMENT SEPARATOR---\<newline>\<newline>'' (all_texts w doc_ids)))
         emb = Inl msg \<longrightarrow>
       fst (chat_with_documents_sync sv doc_ids query w) =
         ''Error: Could not create vector store from documents. Please ensure documents are properly processed.''"
  proof (intro allI impI)
    fix emb msg
    assume a: "embeddings sv = Some emb \<and>
       exists_error sv (store_name doc_ids @ ''.faiss'') = None \<and>
       exists_error sv (store_name doc_ids @ ''.pkl'') = None \<and>
       (\<forall>f p. vector_store_dir w (store_name doc_ids @ ''.faiss'') = Some f \<and>
              vector_store_dir w (store_name doc_ids @ ''.pkl'') = Some p \<longrightarrow>
              (\<exists>m. FAISS_load_local sv emb f p = Inl m)) \<and>
       FAISS_from_texts sv
         (split_text sv
           (join ''\<newline>\<newline>---DOCUMENT SEPARATOR---\<newline>\<newline>'' (all_texts w doc_ids)))
         emb = Inl msg"
    with build have "fst (get_or_create_vector_store sv doc_ids w) = Inr None" by blast
    with m4 show "fst (chat_with_documents_sync sv doc_ids query w) =
         ''Error: Could not create vector store from documents. Please ensure documents are properly processed.''" by blast
  qed
  show ?thesis
    by (intro conjI) (fact m1 m2 m3 m4 c5 m5 m6 m7)+
qed

text \<open>
  The theorem on a completion that raises \<open>quota exceeded\<close>, and on seven identifiers,
  where the first \<open>exists\<close> raises.
\<close>

theorem chat_never_raises_witness:
  "[''doc1''] \<noteq> [] \<and>
   fst (get_or_create_vector_store (stub_services (Some ()) (Inl ''quota exceeded'') None)
     [''doc1''] stub_world) = Inr (Some [''Lease agreement'']) \<and>
   similarity_search (stub_services (Some ()) (Inl ''quota exceeded'') None)
     [''Lease agreement''] ''What is the rent?'' 3 = Inr [''Lease agreement''] \<and>
   llm_invoke (stub_services (Some ()) (Inl ''quota exceeded'') None) chat_config
     (get_qa_prompt ''What is the rent?'' (join ''\<newline>\<newline>'' [''Lease agreement'']))
     = Inl ''quota exceeded'' \<and>
   fst (chat_with_documents_sync (stub_services (Some ()) (Inl ''quota exceeded'') None)
     [''doc1''] ''What is the rent?'' stub_world) =
     ''Sorry, I encountered an error while processing your question: quota exceeded'' \<and>
   seven_doc_ids \<noteq> [] \<and>
   fst (get_or_create_vector_store (stub_services (Some ()) (Inr ''answer'') None)
     seven_doc_ids stub_world) = Inl ''[Errno 36] File name too long'' \<and>
   fst (chat_with_documents_sync (stub_services (Some ()) (Inr ''answer'') None)
     seven_doc_ids ''What is the rent?'' stub_world) =
     ''Sorry, I encountered an error while processing your question: [Errno 36] File name too long''"
proof -
  let ?sv = "stub_services (Some ()) (Inl ''quota exceeded'') None"
  let ?sv7 = "stub_services (Some ()) (Inr ''answer'') None"
  have n: "[''doc1''] \<noteq> ([] :: string list)" by simp
  have g: "fst (get_or_create_vector_store ?sv [''doc1''] stub_world) =
      Inr (Some [''Lease agreement''])"
    by (simp add: get_or_create_stub)
  have s: "similarity_search ?sv [''Lease agreement''] ''What is the rent?'' 3
      = Inr [''Lease agreement'']"
    by (simp add: stub_services_def)
  have l: "llm_invoke ?sv chat_config
     (get_qa_prompt ''What is the rent?'' (join ''\<newline>\<newline>'' [''Lease agreement'']))
     = Inl ''quota exceeded''"
    by (simp add: stub_services_def)
  from chat_never_raises[OF n, of ?sv "''What is the rent?''" stub_world] g s l
  have a: "fst (chat_with_documents_sync ?sv [''doc1''] ''What is the rent?'' stub_world) =
     ''Sorry, I encountered an error while processing your question: '' @ ''quota exceeded''"
    by blast
  have n7: "seven_doc_ids \<noteq> []" by (simp add: seven_doc_ids_def)
  have g7: "fst (get_or_create_vector_store ?sv7 seven_doc_ids stub_world) =
      Inl ''[Errno 36] File name too long''"
    by (simp add: get_or_create_seven)
  from chat_never_raises[OF n7, of ?sv7 "''What is the rent?''" stub_world] g7
  have b: "fst (chat_with_documents_sync ?sv7 seven_doc_ids ''What is the rent?'' stub_world) =
     ''Sorry, I encountered an error while processing your question: '' @
     ''[Errno 36] File name too long''"
    by blast
  from a b g s l n7 g7 show ?thesis by simp
qed

text \<open>
  Claim C8 as the spec states it gives the message with the failure's text for every
  failing capability call. An embedding that raises \<open>out of memory\<close> inside the build
  gives the indexing message, which does not hold that text.
\<close>

theorem embedding_failure_message_counterexample:
  "FAISS_from_texts
     ((stub_services (Some ()) (Inr ''answer'') None)
        \<lparr>FAISS_from_texts := (\<lambda>chunks e. Inl ''out of memory'')\<rparr>)
     [''Lease agreement''] () = Inl ''out of memory'' \<and>
   chat_with_documents_sync
     ((stub_services (Some ()) (Inr ''answer'') None)
        \<lparr>FAISS_from_texts := (\<lambda>chunks e. Inl ''out of memory'')\<rparr>)
     [''doc1''] ''What is the rent?'' stub_world =
     (''Error: Could not create vector store from documents. Please ensure documents are properly processed.'',
      called (FromTexts [''Lease agreement'']) stub_world) \<and>
   fst (chat_with_documents_sync
     ((stub_services (Some ()) (Inr ''answer'') None)
        \<lparr>FAISS_from_texts := (\<lambda>chunks e. Inl ''out of memory'')\<rparr>)
     [''doc1''] ''What is the rent?'' stub_world) \<noteq>
     ''Sorry, I encountered an error while processing your question: out of memory''"
proof -
  let ?sv = "(stub_services (Some ()) (Inr ''answer'') None)
        \<lparr>FAISS_from_texts := (\<lambda>chunks e. Inl ''out of memory'')\<rparr>"
  have t: "all_texts stub_world [''doc1''] = [''Lease agreement'']"
    by (simp add: stub_world_def load_extracted_text_def)
  have c: "create_vector_store ?sv () [''doc1''] stub_world =
      (None, called (FromTexts [''Lease agreement'']) stub_world)"
    unfolding create_vector_store_def t
    by (simp add: stub_services_def Let_def)
  have e: "embeddings ?sv = Some ()" by (simp add: stub_services_def)
  have p: "path_exists ?sv stub_world (store_name [''doc1''] @ ''.faiss'') = Inr False"
    by (simp add: path_exists_def stub_services_def stub_world_def store_name_doc1)
  have g: "get_or_create_vector_store ?sv [''doc1''] stub_world =
      (Inr None, called (FromTexts [''Lease agreement'']) stub_world)"
    unfolding get_or_create_vector_store_def e p by (simp add: c)
  have r: "chat_with_documents_sync ?sv [''doc1''] ''What is the rent?'' stub_world =
     (''Error: Could not create vector store from documents. Please ensure documents are properly processed.'',
      called (FromTexts [''Lease agreement'']) stub_world)"
    by (simp add: chat_with_documents_sync_def chat_body_def g no_vector_store_message_def)
  have f: "FAISS_from_texts ?sv [''Lease agreement''] () = Inl ''out of memory''"
    by (simp add: stub_services_def)
  show ?thesis unfolding r using f by simp
qed

text \<open>
  Claim C10: when the embeddings handle is missing, \<open>get_or_create_vector_store\<close>
  returns \<open>None\<close> at once, whatever the directory holds, and the answer for a list of
  identifiers that is not empty is the fixed indexing message.
\<close>

theorem no_embeddings_no_index:
  assumes "embeddings sv = None"
  shows "get_or_create_vector_store sv doc_ids w = (Inr None, w) \<and>
         (doc_ids \<noteq> [] \<longrightarrow>
            chat_with_documents_sync sv doc_ids query w =
              (''Error: Could not create vector store from documents. Please ensure documents are properly processed.'', w))"
  using assms
  by (simp add: get_or_create_vector_store_def chat_with_documents_sync_def chat_body_def
      no_vector_store_message_def)

text \<open>
  The theorem on a directory that holds both files of the key, with a load that
  would succeed.
\<close>

theorem no_embeddings_no_index_witness:
  "embeddings (stub_services None (Inr ''answer'') None) = None \<and>
   vector_store_dir stub_world_indexed (store_name [''doc1''] @ ''.faiss'') = Some ''vectors'' \<and>
   vector_store_dir stub_world_indexed (store_name [''doc1''] @ ''.pkl'') = Some ''Lease agreement'' \<and>
   FAISS_load_local (stub_services None (Inr ''answer'') None) () ''vectors'' ''Lease agreement''
     = Inr [''Lease agreement''] \<and>
   get_or_create_vector_store (stub_services None (Inr ''answer'') None) [''doc1'']
     stub_world_indexed = (Inr None, stub_world_indexed) \<and>
   chat_with_documents_sync (stub_services None (Inr ''answer'') None) [''doc1'']
     ''What is the rent?'' stub_world_indexed =
     (''Error: Could not create vector store from documents. Please ensure documents are properly processed.'',
      stub_world_indexed)"
  using no_embeddings_no_index[of "stub_services None (Inr ''answer'') None" "[''doc1'']"
      stub_world_indexed "''What is the rent?''"]
  by (simp add: stub_services_def stub_world_indexed_def store_name_def)

section \<open>The analysis path\<close>

lemma AnalysisReport_init_empty: "AnalysisReport_init [] = Inl ValidationError"
  by (simp add: DecisionAssist_fields_def AnalysisReport_init_def AnalysisReport_fields_def
      defaulted_def required_def)

subsection \<open>The coercion\<close>

lemma map_of_coerce_risk:
  "map_of (coerce_risk r) k =
     (case map_of r k of
        Some v \<Rightarrow> Some v
      | None \<Rightarrow>
          map_of [(''title'', JStr ''Untitled Risk''), (''why_it_matters'', JStr ''''),
                  (''mitigations'', JArr [])] k)"
  by (simp add: coerce_risk_def map_of_backfill split: option.splits)

lemma validated_risks_eq:
  "validated_risks rs =
     map (\<lambda>r. JObj (coerce_risk r))
       (List.map_filter (\<lambda>x. case x of JObj r \<Rightarrow> Some r | _ \<Rightarrow> None) rs)"
  by (induction rs rule: validated_risks.induct) (simp_all add: List.map_filter_simps)

lemma map_of_backfill_top:
  "map_of (backfill_top data) k =
     (case map_of data k of
        Some v \<Rightarrow> Some v
      | None \<Rightarrow>
          map_of [(''summary'', JArr []), (''key_terms'', JArr []), (''obligations'', JObj []),
                  (''costs_and_payments'', JArr []), (''risks'', JArr []),
                  (''red_flags'', JArr []), (''questions_to_ask'', JArr []),
                  (''negotiation_suggestions'', JArr []),
                  (''decision_assist'',
                     JObj [(''pros'', JArr []), (''cons'', JArr []),
                           (''overall_take'', JStr '''')])] k)"
  by (simp add: backfill_top_def map_of_backfill split: option.splits)

lemma coerce_decision_assist_obj:
  "\<exists>dd'. coerce_decision_assist (JObj dd) = JObj dd' \<and>
     (\<forall>k. map_of dd' k =
        (case map_of dd k of
           Some v \<Rightarrow> Some v
         | None \<Rightarrow>
             map_of [(''pros'', JArr []), (''cons'', JArr []),
                     (''overall_take'', JStr '''')] k))"
  by (simp add: map_of_backfill split: option.splits)

lemma coerce_decision_assist_other:
  "\<forall>dd. v \<noteq> JObj dd \<Longrightarrow> coerce_decision_assist v = v"
  by (cases v) simp_all

text \<open>The coercion when \<open>risks\<close> is missing or can be iterated.\<close>

lemma coerce_analysis_iterable:
  assumes "py_iter (case map_of data ''risks'' of None \<Rightarrow> JArr [] | Some v \<Rightarrow> v) = Some rs"
  shows
   "\<exists>d da. coerce_analysis data = Inr d \<and>
      (\<forall>k. k \<noteq> ''risks'' \<and> k \<noteq> ''decision_assist'' \<longrightarrow>
         map_of d k =
           (case map_of data k of
              Some v \<Rightarrow> Some v
            | None \<Rightarrow>
                map_of [(''summary'', JArr []), (''key_terms'', JArr []),
                        (''obligations'', JObj []), (''costs_and_payments'', JArr []),
                        (''red_flags'', JArr []), (''questions_to_ask'', JArr []),
                        (''negotiation_suggestions'', JArr [])] k)) \<and>
      map_of d ''risks'' =
        Some (JArr (map (\<lambda>r. JObj (coerce_risk r))
                (List.map_filter (\<lambda>x. case x of JObj r \<Rightarrow> Some r | _ \<Rightarrow> None) rs))) \<and>
      (\<forall>r k. map_of (coerce_risk r) k =
         (case map_of r k of
            Some v \<Rightarrow> Some v
          | None \<Rightarrow>
              map_of [(''title'', JStr ''Untitled Risk''), (''why_it_matters'', JStr ''''),
                      (''mitigations'', JArr [])] k)) \<and>
      map_of d ''decision_assist'' = Some da \<and>
      (map_of data ''decision_assist'' = None \<longrightarrow>
         da = JObj [(''pros'', JArr []), (''cons'', JArr []), (''overall_take'', JStr '''')]) \<and>
      (\<forall>dd. map_of data ''decision_assist'' = Some (JObj dd) \<longrightarrow>
         (\<exists>dd'. da = JObj dd' \<and>
            (\<forall>k. map_of dd' k =
               (case map_of dd k of
                  Some v \<Rightarrow> Some v
                | None \<Rightarrow>
                    map_of [(''pros'', JArr []), (''cons'', JArr []),
                            (''overall_take'', JStr '''')] k)))) \<and>
      (\<forall>v. map_of data ''decision_assist'' = Some v \<and> (\<forall>dd. v \<noteq> JObj dd) \<longrightarrow> da = v)"
proof -
  let ?d1 = "backfill_top data"
  let ?d2 = "dict_set ''risks'' (JArr (validated_risks rs)) ?d1"
  let ?v0 = "case map_of data ''decision_assist'' of
               None \<Rightarrow> JObj [(''pros'', JArr []), (''cons'', JArr []),
                             (''overall_take'', JStr '''')]
             | Some v \<Rightarrow> v"
  have r1: "(case map_of ?d1 ''risks'' of None \<Rightarrow> JArr [] | Some v \<Rightarrow> v) =
            (case map_of data ''risks'' of None \<Rightarrow> JArr [] | Some v \<Rightarrow> v)"
    by (simp add: map_of_backfill_top split: option.splits)
  have v0: "map_of ?d2 ''decision_assist'' = Some ?v0"
    by (simp add: map_of_dict_set map_of_backfill_top split: option.splits)
  let ?d = "dict_set ''decision_assist'' (coerce_decision_assist ?v0) ?d2"
  have c: "coerce_analysis data = Inr ?d"
    unfolding coerce_analysis_def Let_def r1 assms
    by (simp only: v0 option.case)
  have other: "\<forall>k. k \<noteq> ''risks'' \<and> k \<noteq> ''decision_assist'' \<longrightarrow>
         map_of ?d k =
           (case map_of data k of
              Some v \<Rightarrow> Some v
            | None \<Rightarrow>
                map_of [(''summary'', JArr []), (''key_terms'', JArr []),
                        (''obligations'', JObj []), (''costs_and_payments'', JArr []),
                        (''red_flags'', JArr []), (''questions_to_ask'', JArr []),
                        (''negotiation_suggestions'', JArr [])] k)"
    by (simp add: map_of_dict_set map_of_backfill_top split: option.splits)
  have risks: "map_of ?d ''risks'' =
        Some (JArr (map (\<lambda>r. JObj (coerce_risk r))
                (List.map_filter (\<lambda>x. case x of JObj r \<Rightarrow> Some r | _ \<Rightarrow> None) rs)))"
    by (simp add: map_of_dict_set validated_risks_eq)
  have da: "map_of ?d ''decision_assist'' = Some (coerce_decision_assist ?v0)"
    by (simp add: map_of_dict_set)
  have da_none: "map_of data ''decision_assist'' = None \<longrightarrow>
      coerce_decision_assist ?v0 =
        JObj [(''pros'', JArr []), (''cons'', JArr []), (''overall_take'', JStr '''')]"
    by (simp add: backfill_def)
  have da_obj: "\<forall>dd. map_of data ''decision_assist'' = Some (JObj dd) \<longrightarrow>
         (\<exists>dd'. coerce_decision_assist ?v0 = JObj dd' \<and>
            (\<forall>k. map_of dd' k =
               (case map_of dd k of
                  Some v \<Rightarrow> Some v
                | None \<Rightarrow>
                    map_of [(''pros'', JArr []), (''cons'', JArr []),
                            (''overall_take'', JStr '''')] k)))"
  proof (intro allI impI)
    fix dd
    assume a: "map_of data ''decision_assist'' = Some (JObj dd)"
    have "?v0 = JObj dd" by (simp only: a option.case)
    then show "\<exists>dd'. coerce_decision_assist ?v0 = JObj dd' \<and>
            (\<forall>k. map_of dd' k =
               (case map_of dd k of
                  Some v \<Rightarrow> Some v
                | None \<Rightarrow>
                    map_of [(''pros'', JArr []), (''cons'', JArr []),
                            (''overall_take'', JStr '''')] k))"
      using coerce_decision_assist_obj[of dd] by (simp only:)
  qed
  have da_other: "\<forall>v. map_of data ''decision_assist'' = Some v \<and> (\<forall>dd. v \<noteq> JObj dd) \<longrightarrow>
      coerce_decision_assist ?v0 = v"
    using coerce_decision_assist_other by (auto split: option.splits)
  have cr: "\<forall>r k. map_of (coerce_risk r) k =
         (case map_of r k of
            Some v \<Rightarrow> Some v
          | None \<Rightarrow>
              map_of [(''title'', JStr ''Untitled Risk''), (''why_it_matters'', JStr ''''),
                      (''mitigations'', JArr [])] k)"
    by (intro allI map_of_coerce_risk)
  show ?thesis
    by (rule exI[of _ ?d], rule exI[of _ "coerce_decision_assist ?v0"], intro conjI)
       (fact c other risks cr da da_none da_obj da_other)+
qed

text \<open>The coercion when \<open>risks\<close> cannot be iterated.\<close>

lemma coerce_analysis_not_iterable:
  assumes "map_of data ''risks'' = Some v"
    and "v = JNull \<or> (\<exists>b. v = JBool b) \<or> (\<exists>n. v = JNum n)"
  shows "coerce_analysis data = Inl TypeError \<and>
         validate_and_coerce_analysis (JObj data) = Inl TypeError"
proof -
  have "map_of (backfill_top data) ''risks'' = Some v"
    using assms(1) by (simp add: map_of_backfill_top)
  moreover have "py_iter v = None" using assms(2) by auto
  ultimately have "coerce_analysis data = Inl TypeError"
    by (simp add: coerce_analysis_def Let_def)
  then show ?thesis by (simp add: validate_and_coerce_analysis_def)
qed

text \<open>
  Claim C5, as the code has it. For a parsed object whose \<open>risks\<close> is missing or can be
  iterated (a list, a dictionary, a string; \<open>rs\<close> are its elements), the coercion gives
  a dictionary \<open>d\<close> where
  \<^item> every key other than \<open>risks\<close> and \<open>decision_assist\<close> keeps the given value; when
    it is one of the seven other fields of the report and is missing, it gets the
    empty list (the empty dictionary for \<open>obligations\<close>);
  \<^item> \<open>risks\<close> is the list of the elements of \<open>rs\<close> that are dictionaries, in their
    order, each coerced; the other elements are dropped;
  \<^item> a coerced risk keeps every key it has and gets \<open>title\<close> \<open>Untitled Risk\<close>,
    \<open>why_it_matters\<close> the empty string and \<open>mitigations\<close> the empty list where it lacks
    them;
  \<^item> \<open>decision_assist\<close> is the empty default when missing; a dictionary keeps its keys
    and gets \<open>pros\<close>, \<open>cons\<close> (empty lists) and \<open>overall_take\<close> (empty string) where it
    lacks them; any other value is left as it is.

  For a parsed object whose \<open>risks\<close> is \<open>null\<close>, a boolean or a number, the coercion
  raises \<open>TypeError\<close>, and \<open>validate_and_coerce_analysis\<close> raises it too.
\<close>

theorem coerce_analysis_backfills:
  "(\<forall>rs. py_iter (case map_of data ''risks'' of None \<Rightarrow> JArr [] | Some v \<Rightarrow> v) = Some rs \<longrightarrow>
     (\<exists>d da. coerce_analysis data = Inr d \<and>
      (\<forall>k. k \<noteq> ''risks'' \<and> k \<noteq> ''decision_assist'' \<longrightarrow>
         map_of d k =
           (case map_of data k of
              Some v \<Rightarrow> Some v
            | None \<Rightarrow>
                map_of [(''summary'', JArr []), (''key_terms'', JArr []),
                        (''obligations'', JObj []), (''costs_and_payments'', JArr []),
                        (''red_flags'', JArr []), (''questions_to_ask'', JArr []),
                        (''negotiation_suggestions'', JArr [])] k)) \<and>
      map_of d ''risks'' =
        Some (JArr (map (\<lambda>r. JObj (coerce_risk r))
                (List.map_filter (\<lambda>x. case x of JObj r \<Rightarrow> Some r | _ \<Rightarrow> None) rs))) \<and>
      (\<forall>r k. map_of (coerce_risk r) k =
         (case map_of r k of
            Some v \<Rightarrow> Some v
          | None \<Rightarrow>
              map_of [(''title'', JStr ''Untitled Risk''), (''why_it_matters'', JStr ''''),
                      (''mitigations'', JArr [])] k)) \<and>
      map_of d ''decision_assist'' = Some da \<and>
      (map_of data ''decision_assist'' = None \<longrightarrow>
         da = JObj [(''pros'', JArr []), (''cons'', JArr []), (''overall_take'', JStr '''')]) \<and>
      (\<forall>dd. map_of data ''decision_assist'' = Some (JObj dd) \<longrightarrow>
         (\<exists>dd'. da = JObj dd' \<and>
            (\<forall>k. map_of dd' k =
               (case map_of dd k of
                  Some v \<Rightarrow> Some v
                | None \<Rightarrow>
                    map_of [(''pros'', JArr []), (''cons'', JArr []),
                            (''overall_take'', JStr '''')] k)))) \<and>
      (\<forall>v. map_of data ''decision_assist'' = Some v \<and> (\<forall>dd. v \<noteq> JObj dd) \<longrightarrow> da = v))) \<and>
   (\<forall>v. map_of data ''risks'' = Some v \<and>
        (v = JNull \<or> (\<exists>b. v = JBool b) \<or> (\<exists>n. v = JNum n)) \<longrightarrow>
      coerce_analysis data = Inl TypeError \<and>
      validate_and_coerce_analysis (JObj data) = Inl TypeError)"
proof (intro conjI allI impI)
  fix rs
  assume "py_iter (case map_of data ''risks'' of None \<Rightarrow> JArr [] | Some v \<Rightarrow> v) = Some rs"
  then show "\<exists>d da. coerce_analysis data = Inr d \<and>
      (\<forall>k. k \<noteq> ''risks'' \<and> k \<noteq> ''decision_assist'' \<longrightarrow>
         map_of d k =
           (case map_of data k of
              Some v \<Rightarrow> Some v
            | None \<Rightarrow>
                map_of [(''summary'', JArr []), (''key_terms'', JArr []),
                        (''obligations'', JObj []), (''costs_and_payments'', JArr []),
                        (''red_flags'', JArr []), (''questions_to_ask'', JArr []),
                        (''negotiation_suggestions'', JArr [])] k)) \<and>
      map_of d ''risks'' =
        Some (JArr (map (\<lambda>r. JObj (coerce_risk r))
                (List.map_filter (\<lambda>x. case x of JObj r \<Rightarrow> Some r | _ \<Rightarrow> None) rs))) \<and>
      (\<forall>r k. map_of (coerce_risk r) k =
         (case map_of r k of
            Some v \<Rightarrow> Some v
          | None \<Rightarrow>
              map_of [(''title'', JStr ''Untitled Risk''), (''why_it_matters'', JStr ''''),
                      (''mitigations'', JArr [])] k)) \<and>
      map_of d ''decision_assist'' = Some da \<and>
      (map_of data ''decision_assist'' = None \<longrightarrow>
         da = JObj [(''pros'', JArr []), (''cons'', JArr []), (''overall_take'', JStr '''')]) \<and>
      (\<forall>dd. map_of data ''decision_assist'' = Some (JObj dd) \<longrightarrow>
         (\<exists>dd'. da = JObj dd' \<and>
            (\<forall>k. map_of dd' k =
               (case map_of dd k of
                  Some v \<Rightarrow> Some v
                | None \<Rightarrow>
                    map_of [(''pros'', JArr []), (''cons'', JArr []),
                            (''overall_take'', JStr '''')] k)))) \<and>
      (\<forall>v. map_of data ''decision_assist'' = Some v \<and> (\<forall>dd. v \<noteq> JObj dd) \<longrightarrow> da = v)"
    by (rule coerce_analysis_iterable)
next
  fix v
  assume a: "map_of data ''risks'' = Some v \<and>
        (v = JNull \<or> (\<exists>b. v = JBool b) \<or> (\<exists>n. v = JNum n))"
  from a have r: "map_of data ''risks'' = Some v"
    and k: "v = JNull \<or> (\<exists>b. v = JBool b) \<or> (\<exists>n. v = JNum n)" by blast+
  from coerce_analysis_not_iterable[OF r k]
  show "coerce_analysis data = Inl TypeError" by (rule conjunct1)
  from coerce_analysis_not_iterable[OF r k]
  show "validate_and_coerce_analysis (JObj data) = Inl TypeError" by (rule conjunct2)
qed

text \<open>
  The theorem on an object with a summary and three risks: one with a title only, one
  that is a string, one with \<open>why_it_matters\<close> only. The string is dropped, the two
  dictionaries get the keys they lack, the summary is kept, the other fields get their
  defaults. And on an object whose \<open>risks\<close> is the number 3.
\<close>

theorem coerce_analysis_backfills_witness:
  "py_iter (case map_of [(''summary'', JArr [JStr ''A lease'']),
                         (''risks'', JArr [JObj [(''title'', JStr ''Late fee'')],
                                           JStr ''noise'',
                                           JObj [(''why_it_matters'', JStr ''No cap'')]])]
                  ''risks'' of None \<Rightarrow> JArr [] | Some v \<Rightarrow> v) =
     Some [JObj [(''title'', JStr ''Late fee'')], JStr ''noise'',
           JObj [(''why_it_matters'', JStr ''No cap'')]] \<and>
   (\<exists>d. coerce_analysis [(''summary'', JArr [JStr ''A lease'']),
                          (''risks'', JArr [JObj [(''title'', JStr ''Late fee'')],
                                            JStr ''noise'',
                                            JObj [(''why_it_matters'', JStr ''No cap'')]])]
           = Inr d \<and>
        map_of d ''risks'' =
          Some (JArr [JObj [(''title'', JStr ''Late fee''), (''why_it_matters'', JStr ''''),
                            (''mitigations'', JArr [])],
                      JObj [(''why_it_matters'', JStr ''No cap''),
                            (''title'', JStr ''Untitled Risk''),
                            (''mitigations'', JArr [])]]) \<and>
        map_of d ''summary'' = Some (JArr [JStr ''A lease'']) \<and>
        map_of d ''key_terms'' = Some (JArr []) \<and>
        map_of d ''obligations'' = Some (JObj []) \<and>
        map_of d ''decision_assist'' =
          Some (JObj [(''pros'', JArr []), (''cons'', JArr []),
                      (''overall_take'', JStr '''')])) \<and>
   map_of [(''summary'', JArr [JStr ''A lease'']), (''risks'', JNum 3)] ''risks''
     = Some (JNum 3) \<and>
   coerce_analysis [(''summary'', JArr [JStr ''A lease'']), (''risks'', JNum 3)]
     = Inl TypeError \<and>
   validate_and_coerce_analysis
     (JObj [(''summary'', JArr [JStr ''A lease'']), (''risks'', JNum 3)]) = Inl TypeError"
proof -
  let ?rs = "[JObj [(''title'', JStr ''Late fee'')], JStr ''noise'',
              JObj [(''why_it_matters'', JStr ''No cap'')]]"
  let ?data = "[(''summary'', JArr [JStr ''A lease'']), (''risks'', JArr ?rs)]"
  let ?bad = "[(''summary'', JArr [JStr ''A lease'']), (''risks'', JNum 3)]"
  have h: "py_iter (case map_of ?data ''risks'' of None \<Rightarrow> JArr [] | Some v \<Rightarrow> v) = Some ?rs"
    by simp
  from coerce_analysis_backfills[of ?data, THEN conjunct1, THEN spec, THEN mp, OF h]
  obtain d da where c: "coerce_analysis ?data = Inr d"
    and o: "\<forall>k. k \<noteq> ''risks'' \<and> k \<noteq> ''decision_assist'' \<longrightarrow>
         map_of d k =
           (case map_of ?data k of
              Some v \<Rightarrow> Some v
            | None \<Rightarrow>
                map_of [(''summary'', JArr []), (''key_terms'', JArr []),
                        (''obligations'', JObj []), (''costs_and_payments'', JArr []),
                        (''red_flags'', JArr []), (''questions_to_ask'', JArr []),
                        (''negotiation_suggestions'', JArr [])] k)"
    and r: "map_of d ''risks'' =
        Some (JArr (map (\<lambda>r. JObj (coerce_risk r))
                (List.map_filter (\<lambda>x. case x of JObj r \<Rightarrow> Some r | _ \<Rightarrow> None) ?rs)))"
    and a: "map_of d ''decision_assist'' = Some da"
    and n: "map_of ?data ''decision_assist'' = None \<longrightarrow>
         da = JObj [(''pros'', JArr []), (''cons'', JArr []), (''overall_take'', JStr '''')]"
    by (elim exE conjE)
  from r have r': "map_of d ''risks'' =
          Some (JArr [JObj [(''title'', JStr ''Late fee''), (''why_it_matters'', JStr ''''),
                            (''mitigations'', JArr [])],
                      JObj [(''why_it_matters'', JStr ''No cap''),
                            (''title'', JStr ''Untitled Risk''),
                            (''mitigations'', JArr [])]])"
    by (simp add: List.map_filter_simps coerce_risk_def backfill_def)
  from o have s: "map_of d ''summary'' = Some (JArr [JStr ''A lease''])" by simp
  from o have k: "map_of d ''key_terms'' = Some (JArr [])" by simp
  from o have b: "map_of d ''obligations'' = Some (JObj [])" by simp
  from a n have a': "map_of d ''decision_assist'' =
          Some (JObj [(''pros'', JArr []), (''cons'', JArr []),
                      (''overall_take'', JStr '''')])" by simp
  have m: "map_of ?bad ''risks'' = Some (JNum 3)" by simp
  have "JNum 3 = JNull \<or> (\<exists>b. JNum 3 = JBool b) \<or> (\<exists>n. JNum 3 = JNum n)" by simp
  with m coerce_analysis_backfills[of ?bad, THEN conjunct2, THEN spec, of "JNum 3"]
  have t: "coerce_analysis ?bad = Inl TypeError \<and>
           validate_and_coerce_analysis (JObj ?bad) = Inl TypeError"
    by blast
  from h c r' s k b a' m t show ?thesis by (intro conjI exI[of _ d]) simp_all
qed

text \<open>
  Claim C5 as the spec states it speaks of every parsed object. On an object whose
  \<open>risks\<close> is \<open>null\<close> the loop over it raises \<open>TypeError\<close>, which the handler of
  \<open>validate_and_coerce_analysis\<close> does not catch: there is no coerced dictionary.
\<close>

theorem coerce_analysis_not_iterable_counterexample:
  "coerce_analysis [(''summary'', JArr [JStr ''A lease'']), (''risks'', JNull)] = Inl TypeError \<and>
   validate_and_coerce_analysis
     (JObj [(''summary'', JArr [JStr ''A lease'']), (''risks'', JNull)]) = Inl TypeError"
  by (simp add: validate_and_coerce_analysis_def coerce_analysis_def backfill_top_def
      backfill_def)

text \<open>
  The whole of \<open>validate_and_coerce_analysis\<close> on an object with no \<open>risks\<close> key, and on
  one whose only risk has a title and nothing else, next to an element that is no
  dictionary.
\<close>

lemma validate_and_coerce_missing_risks:
  "validate_and_coerce_analysis
     (JObj [(''summary'', JArr [JStr ''A lease'']),
            (''decision_assist'', JObj [(''overall_take'', JStr ''Sign it'')])]) =
   Inr (empty_report\<lparr>summary := [''A lease''],
          decision_assist := \<lparr>pros = [], cons = [], overall_take = ''Sign it''\<rparr>\<rparr>)"
  by (simp add: validate_and_coerce_analysis_def coerce_analysis_def backfill_top_def
      backfill_def AnalysisReport_init_def AnalysisReport_fields_def DecisionAssist_fields_def
      defaulted_def required_def empty_report_def)

lemma validate_and_coerce_risk_defaults:
  "validate_and_coerce_analysis
     (JObj [(''risks'', JArr [JObj [(''title'', JStr ''Late fee'')], JStr ''noise''])]) =
   Inr (empty_report\<lparr>risks :=
          [\<lparr>title = ''Late fee'', why_it_matters = '''', where_found = None,
            mitigations = []\<rparr>]\<rparr>)"
  by (simp add: validate_and_coerce_analysis_def coerce_analysis_def backfill_top_def
      backfill_def coerce_risk_def AnalysisReport_init_def AnalysisReport_fields_def
      DecisionAssist_fields_def RiskItem_fields_def defaulted_def required_def
      empty_report_def)

subsection \<open>What the caller of \<open>_summarize_document_sync\<close> gets\<close>

lemma load_extracted_text_stub:
  "load_extracted_text stub_world ''doc1'' = Some ''Lease agreement''"
  by (simp add: load_extracted_text_def stub_world_def)

text \<open>
  The error for a missing text is raised exactly when \<open>load_extracted_text\<close> gives
  \<open>None\<close> or the empty string.
\<close>

lemma summarize_not_found_iff:
  "(\<exists>msg. fst (summarize_document_sync sv doc_id w) = Inl (ValueError msg)) \<longleftrightarrow>
   (load_extracted_text w doc_id = None \<or> load_extracted_text w doc_id = Some [])"
  by (auto simp: summarize_document_sync_def Let_def AnalysisReport_init_empty
      split: option.splits sum.splits)

text \<open>With a text, the call returns a report or raises \<open>ValidationError\<close>.\<close>

lemma summarize_fallback:
  assumes "load_extracted_text w doc_id = Some t" "t \<noteq> []"
  shows "fst (summarize_document_sync sv doc_id w) = Inl ValidationError \<or>
         (\<exists>report. fst (summarize_document_sync sv doc_id w) = Inr report)"
  using assms AnalysisReport_init_empty
  by (auto simp: summarize_document_sync_def Let_def split: sum.splits option.splits)

text \<open>
  It returns the report when the completion answers, the answer parses to an object,
  the coercion goes through and the report validates.
\<close>

lemma summarize_success:
  assumes "load_extracted_text w doc_id = Some t" and "t \<noteq> []"
    and "llm_invoke sv summarize_config (get_summarization_prompt t) = Inr response_text"
    and "json_loads sv (clean_json_response response_text) = Some (JObj data)"
    and "coerce_analysis data = Inr d"
    and "AnalysisReport_init d = Inr report"
  shows "fst (summarize_document_sync sv doc_id w) = Inr report"
  using assms
  by (simp add: summarize_document_sync_def Let_def validate_and_coerce_analysis_def)

text \<open>
  Claim C3 says that a response from which no JSON can be parsed gives the
  all-defaults report and no error. In the code the handler of \<open>JSONDecodeError\<close>
  returns \<open>AnalysisReport()\<close>, which raises \<open>ValidationError\<close> (claim C2): for every
  document with a text and every response that \<open>json.loads\<close> rejects, the call raises
  \<open>ValidationError\<close>.
\<close>

theorem garbage_response_raises:
  assumes "load_extracted_text w doc_id = Some t" and "t \<noteq> []"
    and "llm_invoke sv summarize_config (get_summarization_prompt t) = Inr response_text"
    and "json_loads sv (clean_json_response response_text) = None"
  shows "fst (summarize_document_sync sv doc_id w) = Inl ValidationError"
  using assms
  by (simp add: summarize_document_sync_def Let_def AnalysisReport_init_empty)

text \<open>The theorem on the response \<open>I cannot analyse this.\<close>\<close>

theorem garbage_response_raises_witness:
  "load_extracted_text stub_world ''doc1'' = Some ''Lease agreement'' \<and>
   ''Lease agreement'' \<noteq> [] \<and>
   llm_invoke (stub_services None (Inr ''I cannot analyse this.'') None) summarize_config
     (get_summarization_prompt ''Lease agreement'') = Inr ''I cannot analyse this.'' \<and>
   clean_json_response ''I cannot analyse this.'' = ''I cannot analyse this.'' \<and>
   json_loads (stub_services None (Inr ''I cannot analyse this.'') None)
     (clean_json_response ''I cannot analyse this.'') = None \<and>
   fst (summarize_document_sync (stub_services None (Inr ''I cannot analyse this.'') None)
     ''doc1'' stub_world) = Inl ValidationError"
proof -
  let ?sv = "stub_services None (Inr ''I cannot analyse this.'') None"
  have n: "''Lease agreement'' \<noteq> []" by simp
  have l: "llm_invoke ?sv summarize_config (get_summarization_prompt ''Lease agreement'')
      = Inr ''I cannot analyse this.''"
    by (simp add: stub_services_def)
  have c: "clean_json_response ''I cannot analyse this.'' = ''I cannot analyse this.''"
    by code_simp
  have j: "json_loads ?sv (clean_json_response ''I cannot analyse this.'') = None"
    by (simp add: stub_services_def)
  from garbage_response_raises[OF load_extracted_text_stub n l j] n l c j
    load_extracted_text_stub
  show ?thesis by simp
qed

text \<open>
  Claim C4 says that the error for a missing text is the only one that reaches the
  caller. In the code the handler of \<open>Exception\<close> returns \<open>AnalysisReport()\<close> as well:
  for every document with a text, a completion that raises makes the call raise
  \<open>ValidationError\<close>.
\<close>

theorem completion_failure_raises:
  assumes "load_extracted_text w doc_id = Some t" and "t \<noteq> []"
    and "llm_invoke sv summarize_config (get_summarization_prompt t) = Inl msg"
  shows "fst (summarize_document_sync sv doc_id w) = Inl ValidationError"
  using assms
  by (simp add: summarize_document_sync_def Let_def AnalysisReport_init_empty)

text \<open>The theorem on a completion that raises \<open>503 service unavailable\<close>.\<close>

theorem completion_failure_raises_witness:
  "load_extracted_text stub_world ''doc1'' = Some ''Lease agreement'' \<and>
   ''Lease agreement'' \<noteq> [] \<and>
   llm_invoke (stub_services None (Inl ''503 service unavailable'') None) summarize_config
     (get_summarization_prompt ''Lease agreement'') = Inl ''503 service unavailable'' \<and>
   fst (summarize_document_sync (stub_services None (Inl ''503 service unavailable'') None)
     ''doc1'' stub_world) = Inl ValidationError"
proof -
  let ?sv = "stub_services None (Inl ''503 service unavailable'') None"
  have n: "''Lease agreement'' \<noteq> []" by simp
  have l: "llm_invoke ?sv summarize_config (get_summarization_prompt ''Lease agreement'')
      = Inl ''503 service unavailable''"
    by (simp add: stub_services_def)
  from completion_failure_raises[OF load_extracted_text_stub n l] n l load_extracted_text_stub
  show ?thesis by simp
qed

end
